theory Spec2Isabelle
  imports Main "HOL-Library.Word"
begin

unbundle bit_operations_syntax

section \<open>JavaScript values\<close>

text \<open>
  The values that reach the reconciler as attribute values, keys and constant-id tokens.
  A number is given by the text that \<^verbatim>\<open>String\<close> gives for it (\<^verbatim>\<open>7\<close>, \<^verbatim>\<open>-0.5\<close>,
  \<^verbatim>\<open>1e+21\<close>, \<^verbatim>\<open>Infinity\<close>, \<^verbatim>\<open>NaN\<close>): two numbers are \<^verbatim>\<open>===\<close> exactly when they have the
  same text and are not \<^verbatim>\<open>NaN\<close> (both zeros have the text \<^verbatim>\<open>0\<close>). An object that is not a
  function carries its reference (strict equality on objects is identity), the text that
  \<^verbatim>\<open>JSON.stringify\<close> gives for it and the text that \<^verbatim>\<open>String\<close> gives for it.
  \<open>JInherited name\<close> is the value that a plain object inherits under \<open>name\<close> from
  \<^verbatim>\<open>Object.prototype\<close>: a built-in function, and under \<^verbatim>\<open>__proto__\<close> the prototype itself.
  Other functions, symbols and big integers are outside the embedding.
\<close>

datatype jsval =
    JUndefined | JNull | JBool bool | JNum string | JStr string | JObj nat string string
  | JInherited string

text \<open>The names of the properties of \<^verbatim>\<open>Object.prototype\<close>, none of them enumerable.\<close>

definition inherited_names :: "string list" where
  "inherited_names =
     [''constructor'', ''__defineGetter__'', ''__defineSetter__'', ''hasOwnProperty'',
      ''__lookupGetter__'', ''__lookupSetter__'', ''isPrototypeOf'', ''propertyIsEnumerable'',
      ''toString'', ''valueOf'', ''__proto__'', ''toLocaleString'']"

definition inherited :: "string \<Rightarrow> bool" where
  "inherited name = (name \<in> set inherited_names)"

text \<open>\<^verbatim>\<open>a === b\<close>\<close>

fun strict_eq :: "jsval \<Rightarrow> jsval \<Rightarrow> bool" where
  "strict_eq (JObj r _ _) (JObj r' _ _) = (r = r')"
| "strict_eq (JNum a) (JNum b) = (a = b \<and> a \<noteq> ''NaN'')"
| "strict_eq a b = (a = b)"

text \<open>\<^verbatim>\<open>v == null\<close>: true of \<^verbatim>\<open>null\<close> and \<^verbatim>\<open>undefined\<close> only.\<close>

fun loose_null :: "jsval \<Rightarrow> bool" where
  "loose_null JUndefined = True"
| "loose_null JNull = True"
| "loose_null _ = False"

text \<open>
  \<^verbatim>\<open>String(n)\<close> for an integer below \<open>10\<^sup>2\<^sup>1\<close> in magnitude: its decimal digits. It is
  applied to counters and indices only.
\<close>

definition digit_char :: "nat \<Rightarrow> char" where
  "digit_char n = ''0123456789'' ! (n mod 10)"

fun string_of_nat :: "nat \<Rightarrow> string" where
  "string_of_nat n = (if 10 \<le> n then string_of_nat (n div 10) else []) @ [digit_char n]"

definition string_of_int :: "int \<Rightarrow> string" where
  "string_of_int i = (if i < 0 then CHR ''-'' # string_of_nat (nat (- i)) else string_of_nat (nat i))"

section \<open>KeySequence\<close>

text \<open>
  \<^verbatim>\<open>KeySequence\<close> holds one object \<^verbatim>\<open>_B_\<close>, from key to the number of requests so far.
  \<^verbatim>\<open>_i_(key)\<close> reads \<^verbatim>\<open>lookup[key]++\<close>: on a key never seen the read is \<^verbatim>\<open>undefined\<close>, the
  increment stores \<^verbatim>\<open>NaN\<close> and yields \<^verbatim>\<open>NaN\<close>, which is falsy, so the entry becomes 1 and
  the bare key is returned; on a count \<open>c\<close> the entry becomes \<open>c + 1\<close> and \<open>c\<close> is the
  suffix, unless \<open>c\<close> is 0, which is falsy as well. A count is a double: from \<open>2\<^sup>5\<^sup>3\<close> on
  the increment leaves it as it is.

  \<^verbatim>\<open>_B_\<close> is a plain object, held here as the map of its own properties. Under a name
  that it inherits from \<^verbatim>\<open>Object.prototype\<close> the first read gives a function, which the
  increment turns into \<^verbatim>\<open>NaN\<close> as it does \<^verbatim>\<open>undefined\<close>, and both writes make an own
  property: such a key behaves like any other. The exception is \<^verbatim>\<open>__proto__\<close>, an
  accessor: every read gives the prototype, a write of a number is ignored, so every
  request returns the bare key and leaves the object as it is.
\<close>

type_synonym key_lookup = "string \<rightharpoonup> nat"

definition KeySequence_new :: key_lookup where
  "KeySequence_new = Map.empty"

definition nextKey :: "key_lookup \<Rightarrow> string \<Rightarrow> string \<times> key_lookup" where
  "nextKey lookup key =
     (if key = ''__proto__'' then (key, lookup)
      else (case lookup key of
              None \<Rightarrow> (key, lookup(key \<mapsto> 1))
            | Some currentIndex \<Rightarrow>
                if currentIndex = 0 then (key, lookup(key \<mapsto> 1))
                else (key @ ''_'' @ string_of_nat currentIndex,
                      lookup(key \<mapsto> (if currentIndex < 2 ^ 53 then Suc currentIndex else currentIndex)))))"

text \<open>The requests of one pass in one scope, in document order.\<close>

fun nextKeys :: "key_lookup \<Rightarrow> string list \<Rightarrow> string list \<times> key_lookup" where
  "nextKeys lookup [] = ([], lookup)"
| "nextKeys lookup (k # ks) =
     (case nextKey lookup k of (r, lookup') \<Rightarrow>
        (case nextKeys lookup' ks of (rs, lookup'') \<Rightarrow> (r # rs, lookup'')))"

text \<open>What the n-th request is expected to return, from the requests before it.\<close>

definition resolved_key :: "string list \<Rightarrow> string \<Rightarrow> string" where
  "resolved_key earlier k =
     (if count_list earlier k = 0 then k else k @ ''_'' @ string_of_nat (count_list earlier k))"

definition counts_of :: "string list \<Rightarrow> key_lookup" where
  "counts_of earlier = (\<lambda>k. if count_list earlier k = 0 then None else Some (count_list earlier k))"

section \<open>Virtual nodes\<close>

text \<open>
  An attribute map is a JavaScript object: its reference and its own properties in
  enumeration order.
\<close>

record vattrs =
  attrs_ref :: nat
  attrs_entries :: "(string \<times> jsval) list"

datatype jskey = KeyUndefined | KeyNull | KeyStr string

type_synonym cid = string

text \<open>
  The variants of a virtual node. An element carries, in this order: tag name \<^verbatim>\<open>aB_\<close>,
  attribute map \<^verbatim>\<open>bA_\<close>, key \<^verbatim>\<open>aE_\<close>, owner component \<^verbatim>\<open>aF_\<close>, flags \<^verbatim>\<open>_f_\<close>,
  constant id \<^verbatim>\<open>aI_\<close> (\<^verbatim>\<open>props.i\<close>), namespace \<^verbatim>\<open>bB_\<close>, textarea value \<^verbatim>\<open>bC_\<close> and its
  children. A component placeholder carries the component \<^verbatim>\<open>_b_\<close> (named by its id),
  key, owner, the preserve flag \<^verbatim>\<open>aG_\<close> and its children; a fragment the same without
  the component.
\<close>

datatype vnode =
    VElement string vattrs jskey "cid option" nat jsval "string option" "string option" "vnode list"
  | VText string
  | VComment string
  | VDocumentFragment "vnode list"
  | VComponent cid jskey "cid option" bool "vnode list"
  | VFragment jskey "cid option" bool "vnode list"

text \<open>\<^verbatim>\<open>bJ_\<close> is true on a \<^verbatim>\<open>VText\<close> only; \<^verbatim>\<open>aH_\<close> is the value of a text or comment.\<close>

fun isText :: "vnode \<Rightarrow> bool" where
  "isText (VText _) = True"
| "isText _ = False"

fun nodeValue_of :: "vnode \<Rightarrow> string" where
  "nodeValue_of (VText s) = s"
| "nodeValue_of (VComment s) = s"
| "nodeValue_of _ = []"

subsection \<open>VNode: the child list under construction\<close>

text \<open>
  \<^verbatim>\<open>bv_(finalChildCount)\<close> stores the declared count in \<^verbatim>\<open>bG_\<close> (a number, \<^verbatim>\<open>-1\<close> for text
  and comments, \<^verbatim>\<open>null\<close> when unknown) and zeroes \<^verbatim>\<open>bH_\<close>. The linked list
  \<^verbatim>\<open>bz_\<close>/\<^verbatim>\<open>bx_\<close>/\<^verbatim>\<open>bI_\<close> is the list \<open>kids\<close>. \<^verbatim>\<open>bD_\<close> is true on a textarea element, whose
  children are folded into its value \<^verbatim>\<open>bC_\<close>.
\<close>

datatype child_count = CountNull | Count int

record vbuild =
  finalChildCount :: child_count
  childCount :: nat
  isTextArea :: bool
  valueInternal :: "string option"
  kids :: "vnode list"

datatype js_error = TypeError | NotFoundError | HierarchyRequestError | Unmodelled | OutOfFuel

definition VNode_init :: "child_count \<Rightarrow> bool \<Rightarrow> vbuild" where
  "VNode_init declared textarea =
     \<lparr>finalChildCount = declared, childCount = 0, isTextArea = textarea, valueInternal = None, kids = []\<rparr>"

definition appendChild :: "vbuild \<Rightarrow> vnode \<Rightarrow> js_error + vbuild" where
  "appendChild this child =
     (let this1 = this\<lparr>childCount := Suc (childCount this)\<rparr> in
      if isTextArea this1 then
        (if isText child
         then Inr (this1\<lparr>valueInternal := Some ((case valueInternal this1 of None \<Rightarrow> [] | Some v \<Rightarrow> v) @ nodeValue_of child)\<rparr>)
         else Inl TypeError)
      else Inr (this1\<lparr>kids := kids this1 @ [child]\<rparr>))"

text \<open>
  \<^verbatim>\<open>bE_\<close> (finishChild), the only reader of the declared count: given a node and its
  ancestors, nearest first, it returns to the parent when the count is reached.
\<close>

fun finishChild :: "vbuild list \<Rightarrow> vbuild list" where
  "finishChild [] = []"
| "finishChild [this] = [this]"
| "finishChild (this # parent # up) =
     (if Count (int (childCount this)) = finalChildCount this then finishChild (parent # up) else this # parent # up)"

fun appendChildren :: "vbuild \<Rightarrow> vnode list \<Rightarrow> js_error + vbuild" where
  "appendChildren this [] = Inr this"
| "appendChildren this (c # cs) = (case appendChild this c of Inl e \<Rightarrow> Inl e | Inr this' \<Rightarrow> appendChildren this' cs)"

section \<open>Attribute patching\<close>

text \<open>
  The calls that the reconciler makes on the document are recorded in order. The first
  argument of each operation on a node is the node. \<open>SetProperty\<close> is an assignment to
  a property of the node (\<^verbatim>\<open>className\<close>, \<^verbatim>\<open>id\<close>, \<^verbatim>\<open>style.cssText\<close>, \<^verbatim>\<open>value\<close>, ...).
  \<open>InsertBefore node reference parent\<close> follows the argument order of the helper.
\<close>

datatype dom_op =
    SetAttribute nat string string
  | SetAttributeNS nat string string string
  | RemoveAttribute nat string
  | RemoveAttributeNS nat string string
  | SetProperty nat string jsval
  | SetNodeValue nat string
  | InsertBefore nat "nat option" nat
  | RemoveChild nat
  | CreateElement nat "string option" string
  | CreateTextNode nat string
  | CreateComment nat string
  | CreateFragment nat

abbreviation (input) FLAG_IS_SVG :: nat where "FLAG_IS_SVG \<equiv> 1"
abbreviation (input) FLAG_IS_TEXTAREA :: nat where "FLAG_IS_TEXTAREA \<equiv> 2"
abbreviation (input) FLAG_SIMPLE_ATTRS :: nat where "FLAG_SIMPLE_ATTRS \<equiv> 4"
abbreviation (input) FLAG_PRESERVE :: nat where "FLAG_PRESERVE \<equiv> 8"
abbreviation (input) FLAG_CUSTOM_ELEMENT :: nat where "FLAG_CUSTOM_ELEMENT \<equiv> 16"

definition NS_XLINK :: string where "NS_XLINK = ''http://www.w3.org/1999/xlink''"
definition ATTR_XLINK_HREF :: string where "ATTR_XLINK_HREF = ''xlink:href''"
definition ATTR_HREF :: string where "ATTR_HREF = ''href''"

text \<open>The fields of a virtual node; a field that a variant lacks reads \<^verbatim>\<open>undefined\<close>.\<close>

fun tagName_of :: "vnode \<Rightarrow> string option" where
  "tagName_of (VElement tag _ _ _ _ _ _ _ _) = Some tag"
| "tagName_of _ = None"

fun attrs_of :: "vnode \<Rightarrow> vattrs option" where
  "attrs_of (VElement _ attrs _ _ _ _ _ _ _) = Some attrs"
| "attrs_of _ = None"

fun key_of :: "vnode \<Rightarrow> jskey" where
  "key_of (VElement _ _ key _ _ _ _ _ _) = key"
| "key_of (VComponent _ key _ _ _) = key"
| "key_of (VFragment key _ _ _) = key"
| "key_of _ = KeyUndefined"

fun owner_of :: "vnode \<Rightarrow> cid option" where
  "owner_of (VElement _ _ _ owner _ _ _ _ _) = owner"
| "owner_of (VComponent _ _ owner _ _) = owner"
| "owner_of (VFragment _ owner _ _) = owner"
| "owner_of _ = None"

text \<open>The flags are only read under \<^verbatim>\<open>&\<close>, where \<^verbatim>\<open>undefined\<close> counts as 0.\<close>

fun flags_of :: "vnode \<Rightarrow> nat" where
  "flags_of (VElement _ _ _ _ flags _ _ _ _) = flags"
| "flags_of _ = 0"

fun constId_of :: "vnode \<Rightarrow> jsval" where
  "constId_of (VElement _ _ _ _ _ constId _ _ _) = constId"
| "constId_of _ = JUndefined"

fun preserve_of :: "vnode \<Rightarrow> bool" where
  "preserve_of (VComponent _ _ _ preserve _) = preserve"
| "preserve_of (VFragment _ _ preserve _) = preserve"
| "preserve_of _ = False"

fun vkids :: "vnode \<Rightarrow> vnode list" where
  "vkids (VElement _ _ _ _ _ _ _ _ cs) = cs"
| "vkids (VDocumentFragment cs) = cs"
| "vkids (VComponent _ _ _ _ cs) = cs"
| "vkids (VFragment _ _ _ cs) = cs"
| "vkids _ = []"

text \<open>
  \<^verbatim>\<open>String(v)\<close>. The text of a built-in function is the one that V8 gives; the
  reconciler only ever compares such a value, unless a template passes it as a value.
\<close>

fun js_to_string :: "jsval \<Rightarrow> string" where
  "js_to_string JUndefined = ''undefined''"
| "js_to_string JNull = ''null''"
| "js_to_string (JBool b) = (if b then ''true'' else ''false'')"
| "js_to_string (JNum text) = text"
| "js_to_string (JStr s) = s"
| "js_to_string (JObj _ _ str) = str"
| "js_to_string (JInherited name) =
     (if name = ''__proto__'' then ''[object Object]''
      else ''function '' @ (if name = ''constructor'' then ''Object'' else name) @ ''() { [native code] }'')"

text \<open>
  \<^verbatim>\<open>convertAttrValue(typeof value, value)\<close>: \<^verbatim>\<open>JSON.stringify\<close> for what \<^verbatim>\<open>typeof\<close> calls
  an object (\<^verbatim>\<open>null\<close> and \<^verbatim>\<open>Object.prototype\<close> among them), \<^verbatim>\<open>String\<close> for the rest.
\<close>

fun convertAttrValue :: "jsval \<Rightarrow> string" where
  "convertAttrValue (JBool True) = []"
| "convertAttrValue (JObj _ json _) = json"
| "convertAttrValue JNull = ''null''"
| "convertAttrValue (JInherited name) =
     (if name = ''__proto__'' then ''{}'' else js_to_string (JInherited name))"
| "convertAttrValue v = js_to_string v"

text \<open>The value handed to \<^verbatim>\<open>setAttribute\<close>: converted unless it is a string.\<close>

fun attr_string :: "jsval \<Rightarrow> string" where
  "attr_string (JStr s) = s"
| "attr_string v = convertAttrValue v"

text \<open>
  \<^verbatim>\<open>attrs[name]\<close>: the own property, or else what the map inherits from
  \<^verbatim>\<open>Object.prototype\<close>; the own names; and \<^verbatim>\<open>name in attrs\<close>.
\<close>

definition attr_lookup :: "vattrs \<Rightarrow> string \<Rightarrow> jsval" where
  "attr_lookup a name =
     (case map_of (attrs_entries a) name of
        None \<Rightarrow> (if inherited name then JInherited name else JUndefined)
      | Some v \<Rightarrow> v)"

definition attr_names :: "vattrs \<Rightarrow> string set" where
  "attr_names a = fst ` set (attrs_entries a)"

definition attr_in :: "vattrs \<Rightarrow> string \<Rightarrow> bool" where
  "attr_in a name = (name \<in> attr_names a \<or> inherited name)"

definition setAttribute :: "nat \<Rightarrow> string option \<Rightarrow> string \<Rightarrow> string \<Rightarrow> dom_op" where
  "setAttribute el namespaceURI name v =
     (case namespaceURI of None \<Rightarrow> SetAttribute el name v | Some ns \<Rightarrow> SetAttributeNS el ns name v)"

definition removeAttribute :: "nat \<Rightarrow> string option \<Rightarrow> string \<Rightarrow> dom_op" where
  "removeAttribute el namespaceURI name =
     (case namespaceURI of None \<Rightarrow> RemoveAttribute el name | Some ns \<Rightarrow> RemoveAttributeNS el ns name)"

text \<open>
  \<^verbatim>\<open>assign(fromEl, attrs)\<close>, the whole patch of a custom element. Each round of its
  loop calls \<^verbatim>\<open>b.hasOwnProperty(key)\<close>: a map that has an attribute of that name holds
  there something else than the inherited function, and the call throws (or, for another
  function, does what is not modelled) before anything is assigned.
\<close>

definition assign :: "nat \<Rightarrow> vattrs \<Rightarrow> js_error + dom_op list" where
  "assign el b =
     (case map_of (attrs_entries b) ''hasOwnProperty'' of
        None \<Rightarrow> Inr (map (\<lambda>(key, v). SetProperty el key v) (attrs_entries b))
      | Some f \<Rightarrow>
          (if f = JInherited ''hasOwnProperty''
           then Inr (map (\<lambda>(key, v). SetProperty el key v) (attrs_entries b))
           else (case f of
                   JInherited name \<Rightarrow> (if name = ''__proto__'' then Inl TypeError else Inl Unmodelled)
                 | _ \<Rightarrow> Inl TypeError)))"

text \<open>
  The body of the first loop of \<^verbatim>\<open>morphAttrs\<close>, for one entry of the new map. The old
  value is looked up under the name after the \<^verbatim>\<open>xlink:href\<close> renaming, as the source does.
\<close>

definition patch_attr :: "nat \<Rightarrow> vattrs \<Rightarrow> string \<times> jsval \<Rightarrow> dom_op list" where
  "patch_attr fromEl oldAttrs entry =
     (let attrValue = snd entry;
          namespaceURI = (if fst entry = ATTR_XLINK_HREF then Some NS_XLINK else None);
          attrName = (if fst entry = ATTR_XLINK_HREF then ATTR_HREF else fst entry)
      in if loose_null attrValue \<or> attrValue = JBool False
         then [removeAttribute fromEl namespaceURI attrName]
         else if \<not> strict_eq (attr_lookup oldAttrs attrName) attrValue
         then [setAttribute fromEl namespaceURI attrName (attr_string attrValue)]
         else [])"

text \<open>The body of the second loop, for one name of the old map.\<close>

definition remove_stale :: "nat \<Rightarrow> vattrs \<Rightarrow> string \<Rightarrow> dom_op list" where
  "remove_stale fromEl attrs attrName =
     (if \<not> attr_in attrs attrName
      then (if attrName = ATTR_XLINK_HREF
            then [RemoveAttributeNS fromEl ATTR_XLINK_HREF ATTR_HREF]
            else [RemoveAttribute fromEl attrName])
      else [])"

text \<open>The three comparisons of the path taken when both elements have simple attributes.\<close>

definition simple_attr :: "nat \<Rightarrow> vattrs \<Rightarrow> vattrs \<Rightarrow> string \<Rightarrow> string \<Rightarrow> dom_op list" where
  "simple_attr fromEl oldAttrs attrs name prop =
     (if \<not> strict_eq (attr_lookup oldAttrs name) (attr_lookup attrs name)
      then [SetProperty fromEl prop (attr_lookup attrs name)] else [])"

text \<open>
  \<^verbatim>\<open>VElement.aA_\<close> (morphAttrs): the operations it issues on \<open>fromEl\<close>, in order.
  \<^verbatim>\<open>VElement.bF_\<close> (removePreservedAttributes) is the identity in this bundle. Reading a
  property of an attribute map that is \<^verbatim>\<open>undefined\<close> (a virtual node that is not an
  element) is the \<^verbatim>\<open>TypeError\<close> that JavaScript raises.
\<close>

definition morphAttrs_ops :: "nat \<Rightarrow> vnode \<Rightarrow> vnode \<Rightarrow> js_error + dom_op list" where
  "morphAttrs_ops fromEl vFromEl toEl =
     (let fromFlags = flags_of vFromEl; toFlags = flags_of toEl in
      if toFlags AND FLAG_CUSTOM_ELEMENT \<noteq> 0
      then (case attrs_of toEl of None \<Rightarrow> Inr [] | Some attrs \<Rightarrow> assign fromEl attrs)
      else if (case (attrs_of vFromEl, attrs_of toEl) of
                 (Some oldAttrs, Some attrs) \<Rightarrow> attrs_ref oldAttrs = attrs_ref attrs
               | _ \<Rightarrow> False)
      then Inr []
      else if toFlags AND FLAG_SIMPLE_ATTRS \<noteq> 0 \<and> fromFlags AND FLAG_SIMPLE_ATTRS \<noteq> 0
      then (case (attrs_of vFromEl, attrs_of toEl) of
              (Some oldAttrs, Some attrs) \<Rightarrow>
                Inr (simple_attr fromEl oldAttrs attrs ''class'' ''className'' @
                     simple_attr fromEl oldAttrs attrs ''id'' ''id'' @
                     simple_attr fromEl oldAttrs attrs ''style'' ''style.cssText'')
            | _ \<Rightarrow> Inl TypeError)
      else (case (attrs_of vFromEl, attrs_of toEl) of
              (Some oldAttrs, Some attrs) \<Rightarrow>
                Inr (concat (map (patch_attr fromEl oldAttrs) (attrs_entries attrs)) @
                     (if key_of toEl = KeyNull
                      then concat (map (\<lambda>e. remove_stale fromEl attrs (fst e)) (attrs_entries oldAttrs))
                      else []))
            | (Some oldAttrs, None) \<Rightarrow>
                (if key_of toEl = KeyNull \<and> attrs_entries oldAttrs \<noteq> [] then Inl TypeError else Inr [])
            | (None, Some attrs) \<Rightarrow>
                (if list_all (\<lambda>e. loose_null (snd e) \<or> snd e = JBool False) (attrs_entries attrs)
                 then Inr (map (\<lambda>e. removeAttribute fromEl
                                  (if fst e = ATTR_XLINK_HREF then Some NS_XLINK else None)
                                  (if fst e = ATTR_XLINK_HREF then ATTR_HREF else fst e))
                             (attrs_entries attrs))
                 else Inl TypeError)
            | (None, None) \<Rightarrow> Inr []))"

text \<open>
  The attribute that an operation addresses, as namespace and local name, and the name
  of the attribute or property that it addresses.
\<close>

fun op_attr :: "dom_op \<Rightarrow> (string option \<times> string) option" where
  "op_attr (SetAttribute _ name _) = Some (None, name)"
| "op_attr (SetAttributeNS _ ns name _) = Some (Some ns, name)"
| "op_attr (RemoveAttribute _ name) = Some (None, name)"
| "op_attr (RemoveAttributeNS _ ns name) = Some (Some ns, name)"
| "op_attr _ = None"



section \<open>The real tree and the tables beside it\<close>

text \<open>
  Results of operations that can throw. \<open>OutOfFuel\<close> is not an error of the program:
  the loops below carry a bound on the number of steps, and it is the result when the
  bound is too small. \<open>Unmodelled\<close> marks the branches that adopt server-rendered markup
  (\<^verbatim>\<open>isRerenderInBrowser === true\<close>), two insertions of a fragment next to itself, an
  assignment to the \<^verbatim>\<open>__proto__\<close> of a table and a call of a function that the program
  was given, which are outside this embedding.
\<close>

definition andThen :: "'e + 'a \<Rightarrow> ('a \<Rightarrow> 'e + 'b) \<Rightarrow> 'e + 'b" where
  "andThen r f = (case r of Inl e \<Rightarrow> Inl e | Inr x \<Rightarrow> f x)"

abbreviation (input) ELEMENT_NODE :: nat where "ELEMENT_NODE \<equiv> 1"
abbreviation (input) COMPONENT_NODE :: nat where "COMPONENT_NODE \<equiv> 2"
abbreviation (input) TEXT_NODE :: nat where "TEXT_NODE \<equiv> 3"
abbreviation (input) COMMENT_NODE :: nat where "COMMENT_NODE \<equiv> 8"
abbreviation (input) FRAGMENT_NODE :: nat where "FRAGMENT_NODE \<equiv> 12"

text \<open>\<^verbatim>\<open>aD_\<close>, the node type of a virtual node.\<close>

fun vnodeType :: "vnode \<Rightarrow> nat" where
  "vnodeType (VElement _ _ _ _ _ _ _ _ _) = 1"
| "vnodeType (VComponent _ _ _ _ _) = 2"
| "vnodeType (VText _) = 3"
| "vnodeType (VComment _) = 8"
| "vnodeType (VDocumentFragment _) = 11"
| "vnodeType (VFragment _ _ _ _) = 12"

text \<open>
  The children of a virtual node as the getters \<^verbatim>\<open>S_\<close> (first child) and \<^verbatim>\<open>aw_\<close> (next
  sibling) enumerate them: a \<^verbatim>\<open>VDocumentFragment\<close> is skipped and its children take its
  place.
\<close>

fun flat :: "vnode \<Rightarrow> vnode list" where
  "flat (VDocumentFragment cs) = concat (map flat cs)"
| "flat v = [v]"

definition vchildren :: "vnode \<Rightarrow> vnode list" where
  "vchildren v = concat (map flat (vkids v))"

text \<open>
  A real node. The real tree is kept in the view that the helpers \<^verbatim>\<open>firstChild\<close> and
  \<^verbatim>\<open>nextSibling\<close> of \<^verbatim>\<open>morphdom/helpers\<close> give: a fragment (a pair of marker text
  nodes with its children between them) is one node of type 12 whose children are the
  nodes between the markers. \<open>intact\<close> is false on a fragment whose markers have been
  removed one by one (by \<^verbatim>\<open>Component.destroy\<close>), after which they delimit nothing.
  \<open>attributes\<close> follows the calls of \<^verbatim>\<open>setAttribute\<close> and \<^verbatim>\<open>removeAttribute\<close>, \<open>props\<close>
  the properties that the special element handlers read (\<^verbatim>\<open>checked\<close>, \<^verbatim>\<open>value\<close>, ...).
\<close>

record rnode =
  nodeType :: nat
  nodeName :: string
  nodeValue :: "string option"
  parentNode :: "nat option"
  childNodes :: "nat list"
  attributes :: "string \<rightharpoonup> string"
  props :: "string \<rightharpoonup> jsval"
  intact :: bool

text \<open>
  A component instance, named by its id: root fragment \<^verbatim>\<open>h_\<close>, keyed elements \<^verbatim>\<open>v_\<close>
  (a node, or for a repeated component key the roots by component id) and the
  destroyed flag \<^verbatim>\<open>q_\<close>.
\<close>

datatype keyed = KNode nat | KRepeated "(cid \<times> nat) list"

record component =
  rootNode :: "nat option"
  keyedElements :: "string \<rightharpoonup> keyed"
  destroyed :: bool

text \<open>The value of \<^verbatim>\<open>detachedByDOMNode\<close>: \<^verbatim>\<open>ownerComponent || true\<close>.\<close>

datatype detach_mark = MarkTrue | MarkOwner cid

text \<open>
  Everything a pass reads and writes: the nodes, the four side tables of
  \<^verbatim>\<open>dom-data\<close>, the components and the global \<^verbatim>\<open>componentLookup\<close>, the per-pass
  \<^verbatim>\<open>keySequences\<close> and \<^verbatim>\<open>detachedNodes\<close>, the operations issued on the document and the
  lifecycle events emitted. The last field is not a variable of the program: it lists
  the components on which \<^verbatim>\<open>destroy()\<close> was called, in order, so that the calls can be
  spoken of.
\<close>

record mstate =
  nodes :: "nat \<rightharpoonup> rnode"
  next_id :: nat
  keysByDOMNode :: "nat \<rightharpoonup> jskey"
  vElementByDOMNode :: "nat \<rightharpoonup> vnode"
  componentByDOMNode :: "nat \<rightharpoonup> cid"
  detachedByDOMNode :: "nat \<rightharpoonup> detach_mark"
  components :: "cid \<Rightarrow> component"
  componentLookup :: "cid set"
  keySequences :: "cid \<rightharpoonup> key_lookup"
  detachedNodes :: "nat list"
  dom_log :: "dom_op list"
  events :: "(cid \<times> string) list"
  destroy_calls :: "cid list"

text \<open>
  What a pass only reads: \<^verbatim>\<open>Q_\<close> (isRerenderInBrowser) and the three maps \<^verbatim>\<open>_x_\<close>,
  \<^verbatim>\<open>_y_\<close>, \<^verbatim>\<open>_z_\<close> of the global components context, whose entries are \<^verbatim>\<open>true\<close>.
\<close>

record mcontext =
  isRerenderInBrowser :: bool
  preservedEls :: "string set"
  preservedBodies :: "string set"
  renderedComponents :: "cid set"

text \<open>
  The maps \<^verbatim>\<open>_x_\<close> and \<^verbatim>\<open>_z_\<close> are plain objects that are only tested for an entry
  (\<^verbatim>\<open>=== undefined\<close>, or truthiness): a name that a plain object inherits tests as present.
\<close>

definition is_rendered :: "mcontext \<Rightarrow> cid \<Rightarrow> bool" where
  "is_rendered ctx c = (c \<in> renderedComponents ctx \<or> inherited c)"

definition preserved_el :: "mcontext \<Rightarrow> string \<Rightarrow> bool" where
  "preserved_el ctx key = (key \<in> preservedEls ctx \<or> inherited key)"

definition node_type :: "mstate \<Rightarrow> nat \<Rightarrow> nat" where
  "node_type st n = (case nodes st n of None \<Rightarrow> 0 | Some r \<Rightarrow> nodeType r)"

definition parent_of :: "mstate \<Rightarrow> nat \<Rightarrow> nat option" where
  "parent_of st n = (case nodes st n of None \<Rightarrow> None | Some r \<Rightarrow> parentNode r)"

definition children_of :: "mstate \<Rightarrow> nat \<Rightarrow> nat list" where
  "children_of st n = (case nodes st n of None \<Rightarrow> [] | Some r \<Rightarrow> childNodes r)"

definition is_intact :: "mstate \<Rightarrow> nat \<Rightarrow> bool" where
  "is_intact st n = (case nodes st n of None \<Rightarrow> False | Some r \<Rightarrow> intact r)"

definition upd_node :: "nat \<Rightarrow> (rnode \<Rightarrow> rnode) \<Rightarrow> mstate \<Rightarrow> mstate" where
  "upd_node n f st = st\<lparr>nodes := (nodes st)(n := map_option f (nodes st n))\<rparr>"

definition log_op :: "dom_op \<Rightarrow> mstate \<Rightarrow> mstate" where
  "log_op op st = st\<lparr>dom_log := dom_log st @ [op]\<rparr>"

text \<open>\<^verbatim>\<open>keysByDOMNode.get(node)\<close>\<close>

definition key_at :: "mstate \<Rightarrow> nat \<Rightarrow> jskey" where
  "key_at st n = (case keysByDOMNode st n of None \<Rightarrow> KeyUndefined | Some k \<Rightarrow> k)"

text \<open>Truthiness of a key.\<close>

fun key_truthy :: "jskey \<Rightarrow> bool" where
  "key_truthy (KeyStr s) = (s \<noteq> [])"
| "key_truthy _ = False"

text \<open>
  \<^verbatim>\<open>isAutoKey(key)\<close> is \<^verbatim>\<open>!/^@/.test(key)\<close>; the test turns \<^verbatim>\<open>undefined\<close> and \<^verbatim>\<open>null\<close>
  into their names, which do not start with \<^verbatim>\<open>@\<close>.
\<close>

fun isAutoKey :: "jskey \<Rightarrow> bool" where
  "isAutoKey (KeyStr s) = (case s of [] \<Rightarrow> True | c # _ \<Rightarrow> c \<noteq> CHR ''@'')"
| "isAutoKey _ = True"

subsection \<open>morphdom/helpers\<close>

definition firstChild :: "mstate \<Rightarrow> nat \<Rightarrow> nat option" where
  "firstChild st node = (case children_of st node of [] \<Rightarrow> None | c # _ \<Rightarrow> Some c)"

fun next_in :: "nat list \<Rightarrow> nat \<Rightarrow> nat option" where
  "next_in [] x = None"
| "next_in [y] x = None"
| "next_in (y # z # zs) x = (if y = x then Some z else next_in (z # zs) x)"

definition nextSibling :: "mstate \<Rightarrow> nat \<Rightarrow> nat option" where
  "nextSibling st node =
     (case parent_of st node of None \<Rightarrow> None | Some p \<Rightarrow> next_in (children_of st p) node)"

text \<open>
  The parent that the document itself records for a node: the nearest ancestor that is
  not a fragment; for a fragment outside the document, its own detached container; for
  anything else outside the document, nothing.
\<close>

datatype raw_parent = RawNode nat | RawDetached nat | RawNull

fun raw_parent_of :: "nat \<Rightarrow> mstate \<Rightarrow> nat \<Rightarrow> raw_parent" where
  "raw_parent_of 0 st x = RawNull"
| "raw_parent_of (Suc k) st x =
     (case parent_of st x of
        None \<Rightarrow> (if node_type st x = FRAGMENT_NODE \<and> is_intact st x then RawDetached x else RawNull)
      | Some p \<Rightarrow> (if node_type st p = FRAGMENT_NODE then raw_parent_of k st p else RawNode p))"

text \<open>The node on which \<^verbatim>\<open>insertBefore\<close> is finally called for a given parent.\<close>

definition raw_container :: "mstate \<Rightarrow> nat \<Rightarrow> raw_parent" where
  "raw_container st p =
     (if node_type st p = FRAGMENT_NODE then raw_parent_of (next_id st) st p else RawNode p)"

fun is_ancestor :: "nat \<Rightarrow> mstate \<Rightarrow> nat \<Rightarrow> nat \<Rightarrow> bool" where
  "is_ancestor 0 st a x = False"
| "is_ancestor (Suc k) st a x =
     (a = x \<or> (case parent_of st x of None \<Rightarrow> False | Some p \<Rightarrow> is_ancestor k st a p))"

fun insert_before :: "nat option \<Rightarrow> nat \<Rightarrow> nat list \<Rightarrow> nat list" where
  "insert_before None n xs = xs @ [n]"
| "insert_before (Some r) n [] = [n]"
| "insert_before (Some r) n (x # xs) = (if x = r then n # x # xs else x # insert_before (Some r) n xs)"

definition unlink :: "nat \<Rightarrow> mstate \<Rightarrow> mstate" where
  "unlink node st =
     (case parent_of st node of
        None \<Rightarrow> st
      | Some p \<Rightarrow> upd_node node (\<lambda>r. r\<lparr>parentNode := None\<rparr>)
                   (upd_node p (\<lambda>r. r\<lparr>childNodes := removeAll node (childNodes r)\<rparr>) st))"

definition link :: "nat \<Rightarrow> nat \<Rightarrow> nat option \<Rightarrow> mstate \<Rightarrow> mstate" where
  "link node container refChild st =
     upd_node node (\<lambda>r. r\<lparr>parentNode := Some container\<rparr>)
       (upd_node container (\<lambda>r. r\<lparr>childNodes := insert_before refChild node (childNodes r)\<rparr>) st)"

text \<open>
  The insertion that both \<^verbatim>\<open>insertBefore\<close> and \<^verbatim>\<open>insertAfter\<close> come down to: \<open>node\<close>
  goes into \<open>container\<close> before \<open>refChild\<close> (at the end when there is none), through a call
  on the parent that the document records for \<open>parentEl\<close>. A fragment is moved node by
  node through its \<^verbatim>\<open>nodes\<close> getter, which throws once the markers are apart. The real
  \<^verbatim>\<open>insertBefore\<close> refuses a reference that is not a child of that parent and a node that
  contains it.
\<close>

definition insertAt :: "nat \<Rightarrow> nat \<Rightarrow> nat option \<Rightarrow> nat \<Rightarrow> mstate \<Rightarrow> js_error + mstate" where
  "insertAt node container refChild parentEl st =
     (if node_type st node = FRAGMENT_NODE \<and> \<not> is_intact st node then Inl TypeError
      else if raw_container st parentEl = RawNull then Inl TypeError
      else if is_ancestor (next_id st) st node container
      then (if node_type st node = FRAGMENT_NODE then Inl Unmodelled else Inl HierarchyRequestError)
      else if raw_container st container \<noteq> raw_container st parentEl then Inl NotFoundError
      else if refChild = Some node
      then (if node_type st node = FRAGMENT_NODE then Inl Unmodelled
            else Inr (log_op (InsertBefore node refChild parentEl) st))
      else Inr (log_op (InsertBefore node refChild parentEl) (link node container refChild (unlink node st))))"

definition insertBefore :: "nat \<Rightarrow> nat option \<Rightarrow> nat \<Rightarrow> mstate \<Rightarrow> js_error + mstate" where
  "insertBefore node referenceNode parentEl st =
     (case referenceNode of
        None \<Rightarrow> insertAt node parentEl None parentEl st
      | Some r \<Rightarrow>
          (case parent_of st r of
             None \<Rightarrow> (if raw_parent_of (next_id st) st r = raw_container st parentEl
                          \<and> raw_container st parentEl \<noteq> RawNull
                       then Inl Unmodelled else Inl NotFoundError)
           | Some l \<Rightarrow> insertAt node l (Some r) parentEl st))"

text \<open>
  \<^verbatim>\<open>insertAfter\<close> reads the \<^verbatim>\<open>nextSibling\<close> property of the reference itself, not the
  helper: after the last child of a fragment that is the end marker of the fragment, so
  the node is appended to that fragment.
\<close>

definition insertAfter :: "nat \<Rightarrow> nat option \<Rightarrow> nat \<Rightarrow> mstate \<Rightarrow> js_error + mstate" where
  "insertAfter node referenceNode parentEl st =
     (case referenceNode of
        None \<Rightarrow> insertBefore node None parentEl st
      | Some r \<Rightarrow>
          (case nextSibling st r of
             Some s \<Rightarrow> insertBefore node (Some s) parentEl st
           | None \<Rightarrow>
               (case parent_of st r of
                  None \<Rightarrow> insertBefore node None parentEl st
                | Some l \<Rightarrow>
                    (if node_type st l = FRAGMENT_NODE then insertAt node l None parentEl st
                     else insertBefore node None parentEl st))))"

text \<open>
  \<^verbatim>\<open>removeChild(node)\<close> calls \<^verbatim>\<open>node.remove()\<close>, which every node of a current document
  has; on a fragment it moves the nodes between the markers, with them, to the detached
  container of the fragment.
\<close>

definition removeChild :: "nat \<Rightarrow> mstate \<Rightarrow> js_error + mstate" where
  "removeChild node st =
     (if node_type st node = FRAGMENT_NODE \<and> \<not> is_intact st node then Inl TypeError
      else Inr (log_op (RemoveChild node) (unlink node st)))"

text \<open>\<^verbatim>\<open>createFragmentNode()\<close> without arguments: a fragment in its own detached container.\<close>

definition new_node :: "rnode \<Rightarrow> mstate \<Rightarrow> nat \<times> mstate" where
  "new_node r st = (next_id st, st\<lparr>nodes := (nodes st)(next_id st \<mapsto> r), next_id := Suc (next_id st)\<rparr>)"

definition blank_node :: "nat \<Rightarrow> string \<Rightarrow> string option \<Rightarrow> rnode" where
  "blank_node ty name v =
     \<lparr>nodeType = ty, nodeName = name, nodeValue = v, parentNode = None, childNodes = [],
      attributes = Map.empty, props = Map.empty, intact = True\<rparr>"

definition createFragmentNode :: "mstate \<Rightarrow> nat \<times> mstate" where
  "createFragmentNode st =
     (case new_node (blank_node FRAGMENT_NODE [] (Some [])) st of
        (f, st') \<Rightarrow> (f, log_op (CreateFragment f) st'))"

subsection \<open>Destroying components and nodes\<close>

definition emitLifecycleEvent :: "cid \<Rightarrow> string \<Rightarrow> mstate \<Rightarrow> mstate" where
  "emitLifecycleEvent c eventType st = st\<lparr>events := events st @ [(c, eventType)]\<rparr>"

definition upd_component :: "cid \<Rightarrow> (component \<Rightarrow> component) \<Rightarrow> mstate \<Rightarrow> mstate" where
  "upd_component c f st = st\<lparr>components := (components st)(c := f (components st c))\<rparr>"

text \<open>
  \<^verbatim>\<open>Component.prototype.y_\<close>: nothing on a destroyed component; otherwise the
  \<^verbatim>\<open>destroy\<close> event, the flag \<^verbatim>\<open>q_\<close>, the entry of the root in \<^verbatim>\<open>componentsByDOMNode\<close>
  cleared (a \<^verbatim>\<open>WeakMap\<close> throws on a key that is not an object) and \<^verbatim>\<open>h_\<close> set to
  \<^verbatim>\<open>null\<close>. Removing event listeners and subscriptions has no effect on the state
  modelled here.
\<close>

definition destroyShallow :: "cid \<Rightarrow> mstate \<Rightarrow> js_error + mstate" where
  "destroyShallow c st =
     (if destroyed (components st c) then Inr st
      else (case rootNode (components st c) of
              None \<Rightarrow> Inl TypeError
            | Some h \<Rightarrow>
                Inr (upd_component c (\<lambda>comp. comp\<lparr>rootNode := None, destroyed := True\<rparr>)
                      ((emitLifecycleEvent c ''destroy'' st)
                         \<lparr>componentByDOMNode := (componentByDOMNode st)(h := None)\<rparr>))))"

text \<open>\<^verbatim>\<open>destroyComponentForNode(node)\<close>, \<open>node\<close> being the fragment of a marker.\<close>

definition destroyComponentForNode :: "nat \<Rightarrow> mstate \<Rightarrow> js_error + mstate" where
  "destroyComponentForNode node st =
     (case componentByDOMNode st node of
        None \<Rightarrow> Inr st
      | Some c \<Rightarrow> andThen (destroyShallow c st)
                   (\<lambda>st'. Inr (st'\<lparr>componentLookup := componentLookup st' - {c}\<rparr>)))"

text \<open>\<^verbatim>\<open>/\[\]$/.test(key)\<close>\<close>

definition is_repeated_key :: "string \<Rightarrow> bool" where
  "is_repeated_key key = (2 \<le> length key \<and> drop (length key - 2) key = ''[]'')"

text \<open>
  The removal of the key of a node from the keyed elements of \<open>component\<close> in
  \<^verbatim>\<open>destroyNodeRecursive\<close>. When the entry is the node itself, the branch for repeated
  keys deletes a property of the node, which changes nothing here.
\<close>

definition forget_key :: "cid option \<Rightarrow> nat \<Rightarrow> mstate \<Rightarrow> mstate" where
  "forget_key component node st =
     (case component of
        None \<Rightarrow> st
      | Some c \<Rightarrow>
          (case key_at st node of
             KeyStr key \<Rightarrow>
               (if key \<noteq> [] \<and> keyedElements (components st c) key = Some (KNode node)
                then (if componentByDOMNode st node \<noteq> None \<and> is_repeated_key key then st
                      else upd_component c
                             (\<lambda>comp. comp\<lparr>keyedElements := (keyedElements comp)(key := None)\<rparr>) st)
                else st)
           | _ \<Rightarrow> st))"

text \<open>
  \<^verbatim>\<open>destroyNodeRecursive(node, component)\<close>. The source walks the \<^verbatim>\<open>nextSibling\<close>
  properties of the children, so of a fragment below \<open>node\<close> it meets the two markers
  (which destroy the component of the fragment, and are text nodes: the key of the
  fragment is not removed) and, between them, the children of the fragment.
\<close>

fun destroyNodeRecursive :: "nat \<Rightarrow> cid option \<Rightarrow> nat \<Rightarrow> mstate \<Rightarrow> js_error + mstate"
  and destroy_siblings :: "nat \<Rightarrow> cid option \<Rightarrow> nat list \<Rightarrow> mstate \<Rightarrow> js_error + mstate" where
  "destroyNodeRecursive 0 component node st = Inl OutOfFuel"
| "destroyNodeRecursive (Suc k) component node st =
     andThen (destroyComponentForNode node st)
       (\<lambda>st1. if node_type st1 node = ELEMENT_NODE \<or> node_type st1 node = FRAGMENT_NODE
               then destroy_siblings k component (children_of st1 node) (forget_key component node st1)
               else Inr st1)"
| "destroy_siblings 0 component cs st = Inl OutOfFuel"
| "destroy_siblings (Suc k) component [] st = Inr st"
| "destroy_siblings (Suc k) component (c # cs) st =
     (if node_type st c = FRAGMENT_NODE
      then andThen (destroyComponentForNode c st)
             (\<lambda>st1. andThen (destroy_siblings k component (children_of st1 c) st1)
                (\<lambda>st2. andThen (destroyComponentForNode c st2)
                   (\<lambda>st3. destroy_siblings k component cs st3)))
      else andThen (destroyNodeRecursive k component c st)
             (\<lambda>st1. destroy_siblings k component cs st1))"

text \<open>
  The loop of \<^verbatim>\<open>Component.prototype.destroy\<close> over \<^verbatim>\<open>h_.nodes\<close>, seen from a fragment:
  every node from the start marker to the end marker is destroyed (with no component
  argument) and removed from its parent on its own. A fragment among the children is
  thereby taken apart as well. The removal of the two markers of a fragment is recorded
  as one \<open>RemoveChild\<close> of the fragment.
\<close>

fun take_apart :: "nat \<Rightarrow> nat \<Rightarrow> mstate \<Rightarrow> js_error + mstate"
  and take_apart_children :: "nat \<Rightarrow> nat list \<Rightarrow> mstate \<Rightarrow> js_error + mstate" where
  "take_apart 0 f st = Inl OutOfFuel"
| "take_apart (Suc k) f st =
     andThen (destroyComponentForNode f st)
       (\<lambda>st1. andThen (take_apart_children k (children_of st1 f) st1)
          (\<lambda>st2. andThen (destroyComponentForNode f st2)
             (\<lambda>st3. Inr (log_op (RemoveChild f)
                       (upd_node f (\<lambda>r. r\<lparr>childNodes := [], intact := False\<rparr>) (unlink f st3))))))"
| "take_apart_children 0 cs st = Inl OutOfFuel"
| "take_apart_children (Suc k) [] st = Inr st"
| "take_apart_children (Suc k) (c # cs) st =
     andThen (if node_type st c = FRAGMENT_NODE then take_apart k c st
              else andThen (destroyNodeRecursive k None c st)
                     (\<lambda>st1. Inr (log_op (RemoveChild c) (unlink c st1))))
       (\<lambda>st2. take_apart_children k cs st2)"

text \<open>
  \<^verbatim>\<open>Component.prototype.destroy\<close>. \<^verbatim>\<open>this.h_.nodes\<close> throws when \<^verbatim>\<open>h_\<close> is not set or the
  markers of the root are apart.
\<close>

definition destroyComponent :: "nat \<Rightarrow> cid \<Rightarrow> mstate \<Rightarrow> js_error + mstate" where
  "destroyComponent k c st0 =
     (let st = st0\<lparr>destroy_calls := destroy_calls st0 @ [c]\<rparr> in
      if destroyed (components st c) then Inr st
      else (case rootNode (components st c) of
              None \<Rightarrow> Inl TypeError
            | Some root \<Rightarrow>
                (if node_type st root \<noteq> FRAGMENT_NODE \<or> \<not> is_intact st root then Inl TypeError
                 else andThen (destroyShallow c st)
                        (\<lambda>st1. andThen (take_apart k root st1)
                           (\<lambda>st2. Inr (upd_component c
                                      (\<lambda>comp. comp\<lparr>rootNode := None, keyedElements := Map.empty\<rparr>)
                                      (st2\<lparr>componentLookup := componentLookup st2 - {c}\<rparr>)))))))"

text \<open>
  \<^verbatim>\<open>detachNode\<close>: an element or fragment is queued and marked with its owner (or
  \<^verbatim>\<open>true\<close>); any other node is destroyed and removed at once.
\<close>

definition detachNode :: "nat \<Rightarrow> nat \<Rightarrow> cid option \<Rightarrow> mstate \<Rightarrow> js_error + mstate" where
  "detachNode k node ownerComponent st =
     (if node_type st node = ELEMENT_NODE \<or> node_type st node = FRAGMENT_NODE
      then Inr (st\<lparr>detachedNodes := detachedNodes st @ [node],
                  detachedByDOMNode := (detachedByDOMNode st)
                    (node \<mapsto> (case ownerComponent of None \<Rightarrow> MarkTrue | Some c \<Rightarrow> MarkOwner c))\<rparr>)
      else andThen (destroyNodeRecursive k None node st) (removeChild node))"

text \<open>
  The body of the \<^verbatim>\<open>forEach\<close> over \<^verbatim>\<open>detachedNodes\<close> that ends a pass.
  \<^verbatim>\<open>eventDelegation.z_\<close> is a no-op in this bundle, so the node is always removed.
\<close>

definition flush_detached :: "nat \<Rightarrow> nat \<Rightarrow> mstate \<Rightarrow> js_error + mstate" where
  "flush_detached k node st =
     (case detachedByDOMNode st node of
        None \<Rightarrow> Inr st
      | Some detachedFromComponent \<Rightarrow>
          (let st1 = st\<lparr>detachedByDOMNode := (detachedByDOMNode st)(node := None)\<rparr> in
           case componentByDOMNode st1 node of
             Some componentToDestroy \<Rightarrow> destroyComponent k componentToDestroy st1
           | None \<Rightarrow>
               (if parent_of st1 node \<noteq> None
                then andThen (destroyNodeRecursive k
                                (case detachedFromComponent of MarkTrue \<Rightarrow> None | MarkOwner c \<Rightarrow> Some c)
                                node st1)
                       (removeChild node)
                else Inr st1)))"

fun flush_all :: "nat \<Rightarrow> nat list \<Rightarrow> mstate \<Rightarrow> js_error + mstate" where
  "flush_all k [] st = Inr st"
| "flush_all k (node # rest) st = andThen (flush_detached k node st) (flush_all k rest)"

subsection \<open>Creating and patching single nodes\<close>

text \<open>
  The effect of an operation on the fields of the node that the special element handlers
  read back: \<^verbatim>\<open>setAttribute\<close> and \<^verbatim>\<open>removeAttribute\<close> (without namespace) on \<open>attributes\<close>,
  an assignment on \<open>props\<close>, a write of \<^verbatim>\<open>nodeValue\<close> on a node that is not an element.
\<close>

fun apply_op :: "dom_op \<Rightarrow> mstate \<Rightarrow> mstate" where
  "apply_op (SetAttribute el name v) st = upd_node el (\<lambda>r. r\<lparr>attributes := (attributes r)(name \<mapsto> v)\<rparr>) st"
| "apply_op (RemoveAttribute el name) st = upd_node el (\<lambda>r. r\<lparr>attributes := (attributes r)(name := None)\<rparr>) st"
| "apply_op (SetProperty el name v) st = upd_node el (\<lambda>r. r\<lparr>props := (props r)(name \<mapsto> v)\<rparr>) st"
| "apply_op (SetNodeValue el v) st =
     upd_node el (\<lambda>r. if nodeType r = ELEMENT_NODE then r else r\<lparr>nodeValue := Some v\<rparr>) st"
| "apply_op _ st = st"

definition issue :: "dom_op list \<Rightarrow> mstate \<Rightarrow> mstate" where
  "issue ops st = foldl (\<lambda>s op. log_op op (apply_op op s)) st ops"

text \<open>\<^verbatim>\<open>aK_(name)\<close>, and the getters \<^verbatim>\<open>checked\<close>, \<^verbatim>\<open>selected\<close>, \<^verbatim>\<open>disabled\<close>.\<close>

definition has_attr :: "vnode \<Rightarrow> string \<Rightarrow> bool" where
  "has_attr v name =
     (case attrs_of v of
        None \<Rightarrow> False
      | Some a \<Rightarrow> \<not> loose_null (attr_lookup a name) \<and> attr_lookup a name \<noteq> JBool False)"

text \<open>The getter \<^verbatim>\<open>aJ_\<close>: the value of an input or textarea.\<close>

fun value_of :: "vnode \<Rightarrow> string" where
  "value_of (VElement _ attrMap _ _ _ _ _ textValue _) =
     (let v = (case textValue of Some s \<Rightarrow> JStr s | None \<Rightarrow> attr_lookup attrMap ''value'') in
      if \<not> loose_null v then js_to_string v
      else if attr_lookup attrMap ''type'' = JStr ''checkbox'' \<or> attr_lookup attrMap ''type'' = JStr ''radio''
      then ''on'' else [])"
| "value_of _ = []"

text \<open>The attributes set on a new element by \<^verbatim>\<open>VElement.aC_\<close>, for one entry of the map.\<close>

definition create_attr :: "nat \<Rightarrow> string \<times> jsval \<Rightarrow> dom_op list" where
  "create_attr el entry =
     (if snd entry \<noteq> JBool False \<and> \<not> loose_null (snd entry)
      then (if fst entry = ATTR_XLINK_HREF
            then [SetAttributeNS el NS_XLINK ATTR_HREF (attr_string (snd entry))]
            else [SetAttribute el (fst entry) (attr_string (snd entry))])
      else [])"

text \<open>
  \<^verbatim>\<open>vNode.aC_(doc)\<close>: the real node for a virtual node. A \<^verbatim>\<open>VComponent\<close> has no such
  method; a \<^verbatim>\<open>VDocumentFragment\<close> is never reached, since its children take its place.
\<close>

fun createNode :: "vnode \<Rightarrow> mstate \<Rightarrow> js_error + nat \<times> mstate" where
  "createNode (VElement tag attrMap key owner flags constId ns textValue ks) st =
     (case new_node (blank_node ELEMENT_NODE tag None) st of
        (el, st1) \<Rightarrow>
          (let this = VElement tag attrMap key owner flags constId ns textValue ks;
               st2 = log_op (CreateElement el ns tag) st1
           in andThen
                (if flags AND FLAG_CUSTOM_ELEMENT \<noteq> 0
                 then (case assign el attrMap of Inl e \<Rightarrow> Inl e | Inr ops \<Rightarrow> Inr (issue ops st2))
                 else (let st' = issue (concat (map (create_attr el) (attrs_entries attrMap))) st2 in
                       if flags AND FLAG_IS_TEXTAREA \<noteq> 0
                       then Inr (issue [SetProperty el ''value'' (JStr (value_of this))] st')
                       else Inr st'))
                (\<lambda>st3. Inr (el, st3\<lparr>vElementByDOMNode := (vElementByDOMNode st3)(el \<mapsto> this)\<rparr>))))"
| "createNode (VText v) st =
     (case new_node (blank_node TEXT_NODE [] (Some v)) st of
        (n, st1) \<Rightarrow> Inr (n, log_op (CreateTextNode n v) st1))"
| "createNode (VComment v) st =
     (case new_node (blank_node COMMENT_NODE [] (Some v)) st of
        (n, st1) \<Rightarrow> Inr (n, log_op (CreateComment n v) st1))"
| "createNode (VFragment key owner preserve ks) st =
     (case createFragmentNode st of
        (f, st1) \<Rightarrow>
          Inr (f, st1\<lparr>keysByDOMNode := (keysByDOMNode st1)(f \<mapsto> key),
                      vElementByDOMNode := (vElementByDOMNode st1)(f \<mapsto> VFragment key owner preserve ks)\<rparr>))"
| "createNode (VDocumentFragment ks) st = Inl Unmodelled"
| "createNode (VComponent c key owner preserve ks) st = Inl TypeError"

text \<open>\<^verbatim>\<open>morphAttrs(fromEl, vFromEl, toEl)\<close> on the state.\<close>

definition morphAttrs :: "nat \<Rightarrow> vnode \<Rightarrow> vnode \<Rightarrow> mstate \<Rightarrow> js_error + mstate" where
  "morphAttrs fromEl vFromEl toEl st =
     (case morphAttrs_ops fromEl vFromEl toEl of
        Inl e \<Rightarrow> Inl e
      | Inr ops \<Rightarrow> Inr (issue ops (st\<lparr>vElementByDOMNode := (vElementByDOMNode st)(fromEl \<mapsto> toEl)\<rparr>)))"

subsection \<open>morphdom/specialElHandlers\<close>

definition prop_of :: "mstate \<Rightarrow> nat \<Rightarrow> string \<Rightarrow> jsval" where
  "prop_of st el name =
     (case nodes st el of
        None \<Rightarrow> JUndefined
      | Some r \<Rightarrow> (case props r name of None \<Rightarrow> JUndefined | Some v \<Rightarrow> v))"

definition syncBooleanAttrProp :: "nat \<Rightarrow> vnode \<Rightarrow> string \<Rightarrow> mstate \<Rightarrow> mstate" where
  "syncBooleanAttrProp fromEl toEl name st =
     (if \<not> strict_eq (prop_of st fromEl name) (JBool (has_attr toEl name))
      then issue [SetProperty fromEl name (JBool (has_attr toEl name)),
                  (if has_attr toEl name then SetAttribute fromEl name [] else RemoveAttribute fromEl name)] st
      else st)"

definition sync_value :: "nat \<Rightarrow> vnode \<Rightarrow> mstate \<Rightarrow> mstate" where
  "sync_value fromEl toEl st =
     (if prop_of st fromEl ''value'' \<noteq> JStr (value_of toEl)
      then issue [SetProperty fromEl ''value'' (JStr (value_of toEl))] st else st)"

fun selected_option :: "vnode list \<Rightarrow> int \<Rightarrow> int \<Rightarrow> int" where
  "selected_option [] i selected = selected"
| "selected_option (curChild # rest) i selected =
     (if tagName_of curChild = Some ''OPTION''
      then (if has_attr curChild ''selected'' then selected_option rest (i + 1) (i + 1)
            else selected_option rest (i + 1) selected)
      else selected_option rest i selected)"

definition specialElHandler :: "string option \<Rightarrow> nat \<Rightarrow> vnode \<Rightarrow> mstate \<Rightarrow> mstate" where
  "specialElHandler name fromEl toEl st =
     (if name = Some ''OPTION'' then syncBooleanAttrProp fromEl toEl ''selected'' st
      else if name = Some ''INPUT'' then
        (let st1 = sync_value fromEl toEl
                     (syncBooleanAttrProp fromEl toEl ''disabled''
                        (syncBooleanAttrProp fromEl toEl ''checked'' st)) in
         if (case nodes st1 fromEl of None \<Rightarrow> False | Some r \<Rightarrow> attributes r ''value'' \<noteq> None)
            \<and> \<not> has_attr toEl ''value''
         then issue [RemoveAttribute fromEl ''value''] st1 else st1)
      else if name = Some ''TEXTAREA'' then
        (let newValue = value_of toEl; st1 = sync_value fromEl toEl st in
         case firstChild st1 fromEl of
           None \<Rightarrow> st1
         | Some c \<Rightarrow>
             (let oldValue = (case nodes st1 c of None \<Rightarrow> None | Some r \<Rightarrow> nodeValue r) in
              if oldValue = Some newValue \<or>
                 (newValue = [] \<and>
                  (case prop_of st1 fromEl ''placeholder'' of
                     JStr p \<Rightarrow> oldValue = Some p
                   | JUndefined \<Rightarrow> oldValue = None
                   | JNull \<Rightarrow> oldValue = None
                   | _ \<Rightarrow> False))
              then st1 else issue [SetNodeValue c newValue] st1))
      else if name = Some ''SELECT'' then
        (if \<not> has_attr toEl ''multiple''
         then (let selected = selected_option (vchildren toEl) (- 1) 0 in
               if \<not> strict_eq (prop_of st fromEl ''selectedIndex'') (JNum (string_of_int selected))
               then issue [SetProperty fromEl ''selectedIndex'' (JNum (string_of_int selected))] st else st)
         else st)
      else st)"

section \<open>morphdom\<close>

text \<open>
  The variables of \<^verbatim>\<open>morphChildren\<close> that keep their value from one iteration to the
  next: the cursor over the real children, \<^verbatim>\<open>fromNextSibling\<close> and \<^verbatim>\<open>curFromNodeKey\<close>.
  The other variables are assigned before they are read.
\<close>

record loopvars =
  curFromNodeChild :: "nat option"
  fromNextSibling :: "nat option"
  curFromNodeKey :: jskey

text \<open>\<^verbatim>\<open>curFromNodeChild = fromNextSibling\<close>\<close>

definition advance :: "loopvars \<Rightarrow> loopvars" where
  "advance vars = vars\<lparr>curFromNodeChild := fromNextSibling vars\<rparr>"

fun replace_first :: "string \<Rightarrow> string \<Rightarrow> string \<Rightarrow> string" where
  "replace_first pat rep [] = []"
| "replace_first pat rep (c # cs) =
     (if take (length pat) (c # cs) = pat then rep @ drop (length pat) (c # cs)
      else c # replace_first pat rep cs)"

definition normalizeComponentKey :: "string \<Rightarrow> cid \<Rightarrow> string" where
  "normalizeComponentKey key parentId =
     (case key of
        [] \<Rightarrow> key
      | c # _ \<Rightarrow> if c = CHR ''#'' then replace_first (''#'' @ parentId @ ''-'') [] key else key)"

text \<open>
  \<^verbatim>\<open>addComponentRootToKeyedElements\<close>. Under a repeated key whose entry is a node, the
  root would become a property of that node, which changes nothing here.
\<close>

definition addComponentRootToKeyedElements ::
  "(string \<rightharpoonup> keyed) \<Rightarrow> string \<Rightarrow> nat \<Rightarrow> cid \<Rightarrow> (string \<rightharpoonup> keyed)" where
  "addComponentRootToKeyedElements els key root componentId =
     (if is_repeated_key key
      then (case els key of
              None \<Rightarrow> els(key \<mapsto> KRepeated [(componentId, root)])
            | Some (KRepeated m) \<Rightarrow> els(key \<mapsto> KRepeated ((componentId, root) # filter (\<lambda>e. fst e \<noteq> componentId) m))
            | Some (KNode x) \<Rightarrow> els)
      else els(key \<mapsto> KNode root))"

text \<open>
  The part of \<^verbatim>\<open>insertVirtualComponentBefore\<close> before \<^verbatim>\<open>morphComponent\<close>: a new root
  fragment is inserted, becomes \<^verbatim>\<open>h_\<close> and is entered in the tables. An assignment to
  \<^verbatim>\<open>v_["__proto__"]\<close> would replace the prototype of \<^verbatim>\<open>v_\<close>, which is not modelled.
\<close>

definition mountRoot ::
  "cid \<Rightarrow> jskey \<Rightarrow> cid option \<Rightarrow> cid option \<Rightarrow> nat option \<Rightarrow> nat \<Rightarrow> mstate \<Rightarrow> js_error + mstate" where
  "mountRoot c key ownerComponent parentComponent referenceNode parentEl st =
     (case createFragmentNode st of
        (root, st1) \<Rightarrow>
          andThen (insertBefore root referenceNode parentEl st1)
            (\<lambda>st2.
               (let st3 = upd_component c (\<lambda>comp. comp\<lparr>rootNode := Some root\<rparr>)
                            (st2\<lparr>componentByDOMNode := (componentByDOMNode st2)(root \<mapsto> c)\<rparr>) in
                case (key, ownerComponent) of
                  (KeyStr k, Some oc) \<Rightarrow>
                    (if k = [] then Inr st3
                     else (case parentComponent of
                             None \<Rightarrow> Inl TypeError
                           | Some pc \<Rightarrow>
                               (let k' = normalizeComponentKey k pc in
                                if k' = ''__proto__'' then Inl Unmodelled else
                                Inr (upd_component oc
                                       (\<lambda>comp. comp\<lparr>keyedElements :=
                                          addComponentRootToKeyedElements (keyedElements comp) k' root c\<rparr>)
                                       (st3\<lparr>keysByDOMNode := (keysByDOMNode st3)(root \<mapsto> KeyStr k')\<rparr>)))))
                | _ \<Rightarrow> Inr st3)))"

text \<open>
  The key of a keyed target child as it is looked up: an auto key of a child owned by
  another component than the parent gets the id of its owner appended, and the key
  sequence of the reference component (the parent for an auto key, the owner otherwise)
  disambiguates repeats. Reading \<^verbatim>\<open>.id\<close> of a component that is not there throws, and
  so does the call of \<^verbatim>\<open>_i_\<close> on what \<^verbatim>\<open>keySequences\<close> inherits under the id of the
  reference component, when that is a name of \<^verbatim>\<open>Object.prototype\<close>.
\<close>

definition resolve_key ::
  "cid option \<Rightarrow> cid option \<Rightarrow> string \<Rightarrow> mstate \<Rightarrow> js_error + string \<times> cid \<times> mstate" where
  "resolve_key ownerComponent parentComponent key st =
     (if isAutoKey (KeyStr key) \<and> ownerComponent \<noteq> parentComponent \<and> ownerComponent = None
      then Inl TypeError
      else (case (if isAutoKey (KeyStr key) then parentComponent else ownerComponent) of
              None \<Rightarrow> Inl TypeError
            | Some referenceComponent \<Rightarrow>
                if keySequences st referenceComponent = None \<and> inherited referenceComponent
                then Inl TypeError else
                (case nextKey (case keySequences st referenceComponent of
                                 None \<Rightarrow> KeySequence_new | Some keySequence \<Rightarrow> keySequence)
                        (if isAutoKey (KeyStr key) \<and> ownerComponent \<noteq> parentComponent
                         then key @ '':'' @ (case ownerComponent of None \<Rightarrow> [] | Some oc \<Rightarrow> oc) else key) of
                   (key', keySequence') \<Rightarrow>
                     Inr (key', referenceComponent,
                          st\<lparr>keySequences := (keySequences st)(referenceComponent \<mapsto> keySequence')\<rparr>))))"

text \<open>
  Lines 3331 to 3376: the target child has the key of \<open>matchingFromEl\<close>, which is not the
  node at the cursor, and the two have the same tag name. When the match is the next
  sibling of the cursor, the next target child is peeked at: if its key (as the virtual
  node has it) is the key of the node at the cursor, the match is moved before the
  cursor, which stays ("single element swap"); otherwise the node at the cursor is
  detached and the pass goes on after the match ("single element removal"). When the
  match is anywhere else, it is moved after the cursor and the node at the cursor is
  detached.
\<close>

definition relocate ::
  "nat \<Rightarrow> nat \<Rightarrow> nat \<Rightarrow> cid option \<Rightarrow> vnode option \<Rightarrow> loopvars \<Rightarrow> mstate
     \<Rightarrow> js_error + loopvars \<times> mstate" where
  "relocate k fromNode matchingFromEl ownerComponent toNextSibling vars st =
     (if fromNextSibling vars = Some matchingFromEl
      then (if (case toNextSibling of None \<Rightarrow> False | Some t \<Rightarrow> key_of t = curFromNodeKey vars)
            then andThen (insertBefore matchingFromEl (curFromNodeChild vars) fromNode st)
                   (\<lambda>st'. Inr (vars\<lparr>fromNextSibling := curFromNodeChild vars\<rparr>, st'))
            else andThen (case curFromNodeChild vars of
                            None \<Rightarrow> Inr st
                          | Some cur \<Rightarrow> detachNode k cur ownerComponent st)
                   (\<lambda>st'. Inr (vars\<lparr>fromNextSibling := nextSibling st matchingFromEl\<rparr>, st')))
      else andThen (insertAfter matchingFromEl (curFromNodeChild vars) fromNode st)
             (\<lambda>st1. andThen (case curFromNodeChild vars of
                                None \<Rightarrow> Inr st1
                              | Some cur \<Rightarrow> detachNode k cur ownerComponent st1)
                       (\<lambda>st2. Inr (vars, st2))))"

text \<open>
  What the inner loop over the real children finds at the cursor for an unkeyed target
  child, before it acts: a real element without virtual element is passed over
  (\<open>Foreign\<close>); an element matches when its virtual element has no key and the same tag
  name; text matches text and comment matches comment. Looking at the virtual element
  assigns its key to \<^verbatim>\<open>curFromNodeKey\<close>.
\<close>

datatype verdict = Foreign | CompatibleEl vnode | CompatibleText | Incompatible

definition examine :: "vnode \<Rightarrow> nat \<Rightarrow> loopvars \<Rightarrow> mstate \<Rightarrow> verdict \<times> loopvars" where
  "examine curToNodeChild cur vars st =
     (if node_type st cur = vnodeType curToNodeChild
      then (if node_type st cur = ELEMENT_NODE
            then (case vElementByDOMNode st cur of
                    None \<Rightarrow> (Foreign, vars)
                  | Some curVFromNodeChild \<Rightarrow>
                      (if \<not> key_truthy (key_of curVFromNodeChild)
                          \<and> tagName_of curVFromNodeChild = tagName_of curToNodeChild
                       then CompatibleEl curVFromNodeChild else Incompatible,
                       vars\<lparr>curFromNodeKey := key_of curVFromNodeChild\<rparr>))
            else if node_type st cur = TEXT_NODE \<or> node_type st cur = COMMENT_NODE
            then (CompatibleText, vars)
            else (Incompatible, vars))
      else (Incompatible, vars))"

text \<open>
  The end of an iteration of the inner loop on a node that does not match: it is
  detached, unless \<^verbatim>\<open>curFromNodeKey\<close> is set and is a key of \<^verbatim>\<open>_x_\<close>.
\<close>

definition discard :: "nat \<Rightarrow> mcontext \<Rightarrow> nat \<Rightarrow> cid option \<Rightarrow> loopvars \<Rightarrow> mstate \<Rightarrow> js_error + mstate" where
  "discard k ctx cur ownerComponent vars st =
     (case curFromNodeKey vars of
        KeyStr key \<Rightarrow>
          (if key \<noteq> [] \<and> preserved_el ctx key then Inr st else detachNode k cur ownerComponent st)
      | _ \<Rightarrow> detachNode k cur ownerComponent st)"

text \<open>
  The loop after the last target child (lines 3498 to 3522): a component root is left
  alone when its id is in \<^verbatim>\<open>_z_\<close> and destroyed otherwise; any other node is detached.
\<close>

fun removeRemaining ::
  "nat \<Rightarrow> mcontext \<Rightarrow> nat \<Rightarrow> cid option \<Rightarrow> nat option \<Rightarrow> mstate \<Rightarrow> js_error + mstate" where
  "removeRemaining 0 ctx fromNode parentComponent cur st = Inl OutOfFuel"
| "removeRemaining (Suc k) ctx fromNode parentComponent None st = Inr st"
| "removeRemaining (Suc k) ctx fromNode parentComponent (Some cur) st =
     (case componentByDOMNode st cur of
        Some fromComponent \<Rightarrow>
          andThen (if \<not> is_rendered ctx fromComponent
                   then destroyComponent k fromComponent st else Inr st)
            (removeRemaining k ctx fromNode parentComponent (nextSibling st cur))
      | None \<Rightarrow>
          andThen (detachNode k cur
                     (if isAutoKey (key_at st fromNode) then parentComponent
                      else (case vElementByDOMNode st cur of
                              None \<Rightarrow> None
                            | Some curVFromNodeChild \<Rightarrow> owner_of curVFromNodeChild))
                     st)
            (removeRemaining k ctx fromNode parentComponent (nextSibling st cur)))"

text \<open>
  \<^verbatim>\<open>morphChildren\<close> and the functions that call it back: \<^verbatim>\<open>morphEl\<close>,
  \<^verbatim>\<open>insertVirtualNodeBefore\<close> and the three cases of the outer loop. Each of them takes
  as \<open>recur\<close> the \<^verbatim>\<open>morphChildren\<close> that it calls for the children of a node; the knot is
  tied in \<open>morphChildren\<close> below, where a number bounds the depth of these calls and the
  number of iterations of each loop.
\<close>

type_synonym children_morpher = "nat \<Rightarrow> vnode \<Rightarrow> cid option \<Rightarrow> mstate \<Rightarrow> js_error + mstate"

definition morphEl ::
  "children_morpher \<Rightarrow> mcontext \<Rightarrow> nat \<Rightarrow> vnode \<Rightarrow> vnode \<Rightarrow> jskey \<Rightarrow> cid option \<Rightarrow> cid option
     \<Rightarrow> mstate \<Rightarrow> js_error + mstate" where
  "morphEl recur ctx fromEl vFromEl toEl toElKey ownerComponent parentComponent st =
     andThen (if isRerenderInBrowser ctx \<and> key_truthy toElKey
              then (case (ownerComponent, toElKey) of
                      (Some oc, KeyStr k) \<Rightarrow>
                        Inr (upd_component oc
                               (\<lambda>comp. comp\<lparr>keyedElements := (keyedElements comp)(k \<mapsto> KNode fromEl)\<rparr>) st)
                    | _ \<Rightarrow> Inl TypeError)
              else Inr st)
       (\<lambda>st1. if constId_of toEl \<noteq> JUndefined \<and> strict_eq (constId_of vFromEl) (constId_of toEl)
               then Inr st1
               else andThen (morphAttrs fromEl vFromEl toEl st1)
                      (\<lambda>st2. if (case toElKey of KeyStr k \<Rightarrow> k \<noteq> [] \<and> k \<in> preservedBodies ctx
                                  | _ \<Rightarrow> False)
                              then Inr st2
                              else andThen (if tagName_of toEl \<noteq> Some ''TEXTAREA''
                                            then recur fromEl toEl parentComponent st2
                                            else Inr st2)
                                     (\<lambda>st3. Inr (specialElHandler (tagName_of toEl) fromEl toEl st3))))"

definition insertVirtualNodeBefore ::
  "children_morpher \<Rightarrow> mcontext \<Rightarrow> vnode \<Rightarrow> jskey \<Rightarrow> nat option \<Rightarrow> nat \<Rightarrow> cid option
     \<Rightarrow> cid option \<Rightarrow> mstate \<Rightarrow> js_error + mstate" where
  "insertVirtualNodeBefore recur ctx vNode key referenceEl parentEl ownerComponent parentComponent st =
     andThen (createNode vNode st)
       (\<lambda>(realNode, st1).
          andThen (insertBefore realNode referenceEl parentEl st1)
            (\<lambda>st2. if vnodeType vNode = ELEMENT_NODE \<or> vnodeType vNode = FRAGMENT_NODE
                    then andThen
                           (case key of
                              KeyStr k \<Rightarrow>
                                (if k = [] then Inr st2
                                 else (case (if isAutoKey key then parentComponent else ownerComponent) of
                                         None \<Rightarrow> Inl TypeError
                                       | Some c \<Rightarrow>
                                           if k = ''__proto__'' then Inl Unmodelled else
                                           Inr (upd_component c
                                                  (\<lambda>comp. comp\<lparr>keyedElements :=
                                                     (keyedElements comp)(k \<mapsto> KNode realNode)\<rparr>)
                                                  (st2\<lparr>keysByDOMNode := (keysByDOMNode st2)(realNode \<mapsto> key)\<rparr>))))
                            | _ \<Rightarrow> Inr st2)
                           (\<lambda>st3. recur realNode vNode parentComponent st3)
                    else Inr st2))"

text \<open>
  The case of a component placeholder (lines 3198 to 3242). The result says whether the
  target child was consumed: after destroying the component found at the cursor, the
  source takes the same target child again. For a component that \<^verbatim>\<open>componentLookup\<close> does
  not hold, under an id that it inherits from \<^verbatim>\<open>Object.prototype\<close>, the source takes what
  it inherits for the existing component and ends by inserting its root, \<^verbatim>\<open>undefined\<close>.
\<close>

definition morphComponentNode ::
  "children_morpher \<Rightarrow> nat \<Rightarrow> mcontext \<Rightarrow> nat \<Rightarrow> cid option \<Rightarrow> cid option \<Rightarrow> vnode
     \<Rightarrow> loopvars \<Rightarrow> mstate \<Rightarrow> js_error + bool \<times> loopvars \<times> mstate" where
  "morphComponentNode recur n ctx fromNode parentComponent ownerComponent curToNodeChild vars st =
     (case curToNodeChild of
        VComponent c key own preserve ks \<Rightarrow>
          (if c \<notin> componentLookup st
           then (if inherited c then Inl TypeError
                 else if isRerenderInBrowser ctx then Inl Unmodelled
                 else andThen (mountRoot c key ownerComponent parentComponent
                                 (curFromNodeChild vars) fromNode st)
                        (\<lambda>st1. case rootNode (components st1 c) of
                                  None \<Rightarrow> Inl TypeError
                                | Some h \<Rightarrow>
                                    andThen (recur h curToNodeChild (Some c) st1)
                                      (\<lambda>st2. Inr (True, vars, st2))))
           else if rootNode (components st c) \<noteq> curFromNodeChild vars
           then (case (case curFromNodeChild vars of
                         None \<Rightarrow> None
                       | Some cur \<Rightarrow>
                           (case componentByDOMNode st cur of
                              None \<Rightarrow> None
                            | Some fromComponent \<Rightarrow>
                                if \<not> is_rendered ctx fromComponent
                                then Some fromComponent else None)) of
                   Some fromComponent \<Rightarrow>
                     (case rootNode (components st fromComponent) of
                        None \<Rightarrow> Inl TypeError
                      | Some h \<Rightarrow>
                          andThen (destroyComponent n fromComponent st)
                            (\<lambda>st1. Inr (False, vars\<lparr>curFromNodeChild := nextSibling st h\<rparr>, st1)))
                 | None \<Rightarrow>
                     (case rootNode (components st c) of
                        None \<Rightarrow> Inl TypeError
                      | Some h \<Rightarrow>
                          andThen (insertBefore h (curFromNodeChild vars) fromNode st)
                            (\<lambda>st1. if preserve then Inr (True, vars, st1)
                                    else andThen (recur h curToNodeChild (Some c) st1)
                                           (\<lambda>st2. Inr (True, vars, st2)))))
           else (case curFromNodeChild vars of
                   None \<Rightarrow> (if preserve then Inr (True, vars, st) else Inl TypeError)
                 | Some cur \<Rightarrow>
                     (if preserve
                      then Inr (True, vars\<lparr>curFromNodeChild := nextSibling st cur\<rparr>, st)
                      else andThen (recur cur curToNodeChild (Some c) st)
                             (\<lambda>st1. Inr (True, vars\<lparr>curFromNodeChild := nextSibling st cur\<rparr>, st1)))))
      | _ \<Rightarrow> Inl TypeError)"

text \<open>
  The case of a keyed target child (lines 3243 to 3397). Under a key that \<^verbatim>\<open>v_\<close> does not
  hold but inherits from \<^verbatim>\<open>Object.prototype\<close>, \<^verbatim>\<open>matchingFromEl\<close> is not \<^verbatim>\<open>undefined\<close> and
  not a node: \<^verbatim>\<open>compareNodeNames\<close>, or the insertion of a preserved node, throws.
\<close>

definition morphKeyedNode ::
  "children_morpher \<Rightarrow> nat \<Rightarrow> mcontext \<Rightarrow> nat \<Rightarrow> cid option \<Rightarrow> cid option \<Rightarrow> vnode option
     \<Rightarrow> vnode \<Rightarrow> loopvars \<Rightarrow> mstate \<Rightarrow> js_error + loopvars \<times> mstate" where
  "morphKeyedNode recur n ctx fromNode parentComponent ownerComponent toNextSibling curToNodeChild
     vars st =
     (case key_of curToNodeChild of
        KeyStr curToNodeKeyOriginal \<Rightarrow>
          andThen (resolve_key ownerComponent parentComponent curToNodeKeyOriginal st)
            (\<lambda>(curToNodeKey, referenceComponent, st0).
               (let vars1 = (case curFromNodeChild vars of
                               None \<Rightarrow> vars\<lparr>curFromNodeKey := KeyUndefined\<rparr>
                             | Some cur \<Rightarrow> vars\<lparr>curFromNodeKey := key_at st0 cur,
                                                fromNextSibling := nextSibling st0 cur\<rparr>);
                    preserved = (flags_of curToNodeChild AND FLAG_PRESERVE \<noteq> 0
                                 \<or> preserve_of curToNodeChild)
                in if curFromNodeKey vars1 = KeyStr curToNodeKey
                   then (if preserved then Inr (advance vars1, st0)
                         else (case curFromNodeChild vars of
                                 None \<Rightarrow> Inl TypeError
                               | Some cur \<Rightarrow>
                                   (case vElementByDOMNode st0 cur of
                                      None \<Rightarrow> Inl TypeError
                                    | Some curVFromNodeChild \<Rightarrow>
                                        (if tagName_of curToNodeChild = tagName_of curVFromNodeChild
                                         then andThen (morphEl recur ctx cur curVFromNodeChild curToNodeChild
                                                         (KeyStr curToNodeKey) ownerComponent
                                                         parentComponent st0)
                                                (\<lambda>st1. Inr (advance vars1, st1))
                                         else andThen (detachNode n cur ownerComponent st0)
                                                (\<lambda>st1. andThen
                                                   (insertVirtualNodeBefore recur ctx curToNodeChild
                                                      (KeyStr curToNodeKey) (Some cur) fromNode
                                                      ownerComponent parentComponent st1)
                                                   (\<lambda>st2. Inr (advance vars1, st2)))))))
                   else (case keyedElements (components st0 referenceComponent) curToNodeKey of
                           None \<Rightarrow>
                             (if inherited curToNodeKey then Inl TypeError
                              else if isRerenderInBrowser ctx \<and>
                                 (case curFromNodeChild vars of
                                    None \<Rightarrow> False
                                  | Some cur \<Rightarrow>
                                      (node_type st0 cur = ELEMENT_NODE \<and>
                                       map_option nodeName (nodes st0 cur) = tagName_of curToNodeChild)
                                      \<or> (vnodeType curToNodeChild = FRAGMENT_NODE \<and>
                                          node_type st0 cur = COMMENT_NODE \<and>
                                          map_option nodeValue (nodes st0 cur)
                                            = Some (Some (''F#'' @ curToNodeKeyOriginal))))
                              then Inl Unmodelled
                              else andThen (insertVirtualNodeBefore recur ctx curToNodeChild
                                              (KeyStr curToNodeKey) (curFromNodeChild vars) fromNode
                                              ownerComponent parentComponent st0)
                                     (\<lambda>st1. Inr (advance (vars1\<lparr>fromNextSibling := curFromNodeChild vars\<rparr>),
                                                  st1)))
                         | Some (KRepeated m) \<Rightarrow> Inl TypeError
                         | Some (KNode matchingFromEl) \<Rightarrow>
                             (let st1 = st0\<lparr>detachedByDOMNode :=
                                             (detachedByDOMNode st0)(matchingFromEl := None)\<rparr>
                              in if preserved
                                 then andThen (insertBefore matchingFromEl (curFromNodeChild vars)
                                                 fromNode st1)
                                        (\<lambda>st2. Inr (advance (vars1\<lparr>fromNextSibling := curFromNodeChild vars\<rparr>),
                                                     st2))
                                 else (case vElementByDOMNode st1 matchingFromEl of
                                         None \<Rightarrow> Inl TypeError
                                       | Some curVFromNodeChild \<Rightarrow>
                                           (if tagName_of curVFromNodeChild = tagName_of curToNodeChild
                                            then andThen (relocate n fromNode matchingFromEl ownerComponent
                                                            toNextSibling vars1 st1)
                                                   (\<lambda>(vars2, st2).
                                                      andThen (morphEl recur ctx matchingFromEl
                                                                 curVFromNodeChild curToNodeChild
                                                                 (KeyStr curToNodeKey) ownerComponent
                                                                 parentComponent st2)
                                                        (\<lambda>st3. Inr (advance vars2, st3)))
                                            else andThen (insertVirtualNodeBefore recur ctx curToNodeChild
                                                            (KeyStr curToNodeKey) (curFromNodeChild vars)
                                                            fromNode ownerComponent parentComponent st1)
                                                   (\<lambda>st2. andThen (detachNode n matchingFromEl
                                                                      ownerComponent st2)
                                                             (\<lambda>st3. Inr (advance vars1, st3)))))))))
      | _ \<Rightarrow> Inl TypeError)"

text \<open>
  The case of any other target child: the inner loop over the real children (lines 3402
  to 3478) and, when it runs out of them, the insertion of a new node (lines 3484 to
  3487).
\<close>

fun scanFrom ::
  "children_morpher \<Rightarrow> nat \<Rightarrow> mcontext \<Rightarrow> nat \<Rightarrow> cid option \<Rightarrow> cid option \<Rightarrow> vnode
     \<Rightarrow> loopvars \<Rightarrow> mstate \<Rightarrow> js_error + loopvars \<times> mstate" where
  "scanFrom recur 0 ctx fromNode parentComponent ownerComponent curToNodeChild vars st = Inl OutOfFuel"
| "scanFrom recur (Suc n) ctx fromNode parentComponent ownerComponent curToNodeChild vars st =
     (case curFromNodeChild vars of
        None \<Rightarrow>
          andThen (insertVirtualNodeBefore recur ctx curToNodeChild (key_of curToNodeChild) None fromNode
                     ownerComponent parentComponent st)
            (\<lambda>st1. Inr (advance vars, st1))
      | Some cur \<Rightarrow>
          (let vars1 = vars\<lparr>fromNextSibling := nextSibling st cur\<rparr> in
           case componentByDOMNode st cur of
             Some fromComponent \<Rightarrow>
               andThen (if \<not> is_rendered ctx fromComponent
                        then destroyComponent n fromComponent st else Inr st)
                 (\<lambda>st1. scanFrom recur n ctx fromNode parentComponent ownerComponent curToNodeChild
                           (advance vars1) st1)
           | None \<Rightarrow>
               (case examine curToNodeChild cur vars1 st of
                  (Foreign, vars2) \<Rightarrow>
                    (if isRerenderInBrowser ctx then Inl Unmodelled
                     else scanFrom recur n ctx fromNode parentComponent ownerComponent curToNodeChild
                            (advance vars2) st)
                | (CompatibleEl curVFromNodeChild, vars2) \<Rightarrow>
                    andThen (morphEl recur ctx cur curVFromNodeChild curToNodeChild (key_of curToNodeChild)
                               ownerComponent parentComponent st)
                      (\<lambda>st1. Inr (advance vars2, st1))
                | (CompatibleText, vars2) \<Rightarrow>
                    Inr (advance vars2,
                         if map_option nodeValue (nodes st cur) \<noteq> Some (Some (nodeValue_of curToNodeChild))
                         then issue [SetNodeValue cur (nodeValue_of curToNodeChild)] st else st)
                | (Incompatible, vars2) \<Rightarrow>
                    andThen (discard n ctx cur ownerComponent vars2 st)
                      (\<lambda>st1. scanFrom recur n ctx fromNode parentComponent ownerComponent curToNodeChild
                                (advance vars2) st1))))"

text \<open>The outer loop over the target children \<open>tos\<close>.\<close>

fun morphLoop ::
  "children_morpher \<Rightarrow> nat \<Rightarrow> mcontext \<Rightarrow> nat \<Rightarrow> cid option \<Rightarrow> vnode list \<Rightarrow> loopvars
     \<Rightarrow> mstate \<Rightarrow> js_error + loopvars \<times> mstate" where
  "morphLoop recur 0 ctx fromNode parentComponent tos vars st = Inl OutOfFuel"
| "morphLoop recur (Suc n) ctx fromNode parentComponent [] vars st = Inr (vars, st)"
| "morphLoop recur (Suc n) ctx fromNode parentComponent (curToNodeChild # rest) vars st =
     (if vnodeType curToNodeChild = COMPONENT_NODE
      then andThen (morphComponentNode recur n ctx fromNode parentComponent
                      (case owner_of curToNodeChild of None \<Rightarrow> parentComponent | Some c \<Rightarrow> Some c)
                      curToNodeChild vars st)
             (\<lambda>(consumed, vars', st').
                morphLoop recur n ctx fromNode parentComponent
                  (if consumed then rest else curToNodeChild # rest) vars' st')
      else if key_truthy (key_of curToNodeChild)
      then andThen (morphKeyedNode recur n ctx fromNode parentComponent
                      (case owner_of curToNodeChild of None \<Rightarrow> parentComponent | Some c \<Rightarrow> Some c)
                      (case rest of [] \<Rightarrow> None | toNextSibling # _ \<Rightarrow> Some toNextSibling)
                      curToNodeChild vars st)
             (\<lambda>(vars', st'). morphLoop recur n ctx fromNode parentComponent rest vars' st')
      else andThen (scanFrom recur n ctx fromNode parentComponent
                      (case owner_of curToNodeChild of None \<Rightarrow> parentComponent | Some c \<Rightarrow> Some c)
                      curToNodeChild vars st)
             (\<lambda>(vars', st'). morphLoop recur n ctx fromNode parentComponent rest vars' st'))"

definition morphChildren_body ::
  "children_morpher \<Rightarrow> nat \<Rightarrow> mcontext \<Rightarrow> nat \<Rightarrow> vnode \<Rightarrow> cid option \<Rightarrow> mstate
     \<Rightarrow> js_error + mstate" where
  "morphChildren_body recur n ctx fromNode toNode parentComponent st =
     andThen (morphLoop recur n ctx fromNode parentComponent (vchildren toNode)
                \<lparr>curFromNodeChild = firstChild st fromNode, fromNextSibling = None,
                 curFromNodeKey = KeyUndefined\<rparr> st)
       (\<lambda>(vars, st'). removeRemaining n ctx fromNode parentComponent (curFromNodeChild vars) st')"

primrec morphChildren :: "nat \<Rightarrow> mcontext \<Rightarrow> children_morpher" where
  "morphChildren 0 ctx = (\<lambda>fromNode toNode parentComponent st. Inl OutOfFuel)"
| "morphChildren (Suc n) ctx = morphChildren_body (morphChildren n ctx) n ctx"

text \<open>
  \<^verbatim>\<open>morphdom(fromNode, toNode, doc, componentsContext)\<close>: \<^verbatim>\<open>keySequences\<close> and
  \<^verbatim>\<open>detachedNodes\<close> start empty, the children are morphed with \<^verbatim>\<open>toNode._b_\<close> as parent
  component, and the queue of detached nodes is gone through.
\<close>

fun component_of :: "vnode \<Rightarrow> cid option" where
  "component_of (VComponent c _ _ _ _) = Some c"
| "component_of _ = None"

definition morphdom :: "nat \<Rightarrow> mcontext \<Rightarrow> nat \<Rightarrow> vnode \<Rightarrow> mstate \<Rightarrow> js_error + mstate" where
  "morphdom n ctx fromNode toNode st =
     andThen (morphChildren n ctx fromNode toNode (component_of toNode)
                (st\<lparr>keySequences := Map.empty, detachedNodes := []\<rparr>))
       (\<lambda>st1. flush_all n (detachedNodes st1) st1)"

section \<open>States to start from\<close>

text \<open>
  A document that holds one element, node 0, into which a tree is rendered, with no
  component mounted; and a context of a pass in which nothing is preserved.
\<close>

definition blank_component :: component where
  "blank_component = \<lparr>rootNode = None, keyedElements = Map.empty, destroyed = False\<rparr>"

definition initial_state :: mstate where
  "initial_state =
     \<lparr>nodes = [0 \<mapsto> blank_node ELEMENT_NODE ''BODY'' None], next_id = 1,
      keysByDOMNode = Map.empty, vElementByDOMNode = Map.empty, componentByDOMNode = Map.empty,
      detachedByDOMNode = Map.empty, components = (\<lambda>c. blank_component), componentLookup = {},
      keySequences = Map.empty, detachedNodes = [], dom_log = [], events = [],
      destroy_calls = []\<rparr>"

definition plain_context :: "cid set \<Rightarrow> mcontext" where
  "plain_context rendered =
     \<lparr>isRerenderInBrowser = False, preservedEls = {}, preservedBodies = {},
      renderedComponents = rendered\<rparr>"

section \<open>Relations between states\<close>

text \<open>
  Two relations between the state before and after a step, and a condition on the
  \<^verbatim>\<open>morphChildren\<close> handed to a step. \<open>same_dom\<close>: the nodes, the operations issued, the
  queue of detached nodes and their marks are the same. \<open>destroy_frame\<close>: the queue and
  the marks are the same, no component comes back from being destroyed, and events and
  operations are only added. \<open>keeps_mark m recur\<close>: \<open>recur\<close> leaves the mark of \<open>m\<close> alone.
\<close>

definition same_dom :: "mstate \<Rightarrow> mstate \<Rightarrow> bool" where
  "same_dom st st' \<longleftrightarrow>
     nodes st' = nodes st \<and> dom_log st' = dom_log st \<and> next_id st' = next_id st \<and>
     detachedByDOMNode st' = detachedByDOMNode st \<and> detachedNodes st' = detachedNodes st \<and>
     destroy_calls st' = destroy_calls st"

definition destroy_frame :: "mstate \<Rightarrow> mstate \<Rightarrow> bool" where
  "destroy_frame st st' \<longleftrightarrow>
     detachedByDOMNode st' = detachedByDOMNode st \<and> detachedNodes st' = detachedNodes st \<and>
     next_id st' = next_id st \<and> destroy_calls st' = destroy_calls st \<and>
     (\<forall>c. destroyed (components st c) \<longrightarrow> destroyed (components st' c)) \<and>
     (\<exists>es. events st' = events st @ es) \<and> (\<exists>ops. dom_log st' = dom_log st @ ops)"

text \<open>
  A document in the middle of a pass: the element 0 holds two keyed elements 1 and 2
  (keys \<open>a\<close> and \<open>b\<close> of the component \<open>c0\<close>), a text node 3 and the root fragment 4 of
  the component \<open>c1\<close>, which holds the text node 5. The element 1 and the fragment 4
  have been detached: they are queued and marked.
\<close>

definition keyed_div :: "nat \<Rightarrow> string \<Rightarrow> vnode" where
  "keyed_div r key =
     VElement ''DIV'' \<lparr>attrs_ref = r, attrs_entries = []\<rparr> (KeyStr key) None 0 JUndefined None None []"

definition demo_state :: mstate where
  "demo_state =
     \<lparr>nodes = [0 \<mapsto> (blank_node ELEMENT_NODE ''BODY'' None)\<lparr>childNodes := [1, 2, 3, 4]\<rparr>,
               1 \<mapsto> (blank_node ELEMENT_NODE ''DIV'' None)\<lparr>parentNode := Some 0\<rparr>,
               2 \<mapsto> (blank_node ELEMENT_NODE ''DIV'' None)\<lparr>parentNode := Some 0\<rparr>,
               3 \<mapsto> (blank_node TEXT_NODE [] (Some ''t''))\<lparr>parentNode := Some 0\<rparr>,
               4 \<mapsto> (blank_node FRAGMENT_NODE [] (Some []))\<lparr>parentNode := Some 0, childNodes := [5]\<rparr>,
               5 \<mapsto> (blank_node TEXT_NODE [] (Some ''in''))\<lparr>parentNode := Some 4\<rparr>],
      next_id = 6,
      keysByDOMNode = [1 \<mapsto> KeyStr ''a'', 2 \<mapsto> KeyStr ''b''],
      vElementByDOMNode = [1 \<mapsto> keyed_div 10 ''a'', 2 \<mapsto> keyed_div 11 ''b''],
      componentByDOMNode = [4 \<mapsto> ''c1''],
      detachedByDOMNode = [1 \<mapsto> MarkOwner ''c0'', 4 \<mapsto> MarkTrue],
      components = (\<lambda>c. blank_component)
        (''c0'' := blank_component\<lparr>keyedElements := [''a'' \<mapsto> KNode 1, ''b'' \<mapsto> KNode 2]\<rparr>,
         ''c1'' := blank_component\<lparr>rootNode := Some 4\<rparr>),
      componentLookup = {''c0'', ''c1''},
      keySequences = Map.empty, detachedNodes = [1, 4], dom_log = [], events = [],
      destroy_calls = []\<rparr>"

chapter \<open>Properties\<close>

section \<open>KeySequence and VNode\<close>

lemma nextKey_counts_of:
  "k \<noteq> ''__proto__'' \<Longrightarrow> count_list earlier k < 2 ^ 53 \<Longrightarrow>
   nextKey (counts_of earlier) k = (resolved_key earlier k, counts_of (earlier @ [k]))"
  by (auto simp: nextKey_def counts_of_def resolved_key_def fun_eq_iff)

lemma nextKeys_counts_of:
  "''__proto__'' \<notin> set ks \<Longrightarrow> length earlier + length ks \<le> 2 ^ 53 \<Longrightarrow>
   fst (nextKeys (counts_of earlier) ks) =
     map (\<lambda>i. resolved_key (earlier @ take i ks) (ks ! i)) [0..<length ks]"
proof (induction ks arbitrary: earlier)
  case Nil
  show ?case by simp
next
  case (Cons k ks)
  have idx: "[0..<length (k # ks)] = 0 # map Suc [0..<length ks]"
    by (simp add: upt_conv_Cons map_Suc_upt del: upt_Suc)
  have rest: "fst (nextKeys (counts_of (earlier @ [k])) ks) =
        map (\<lambda>i. resolved_key (earlier @ k # take i ks) (ks ! i)) [0..<length ks]"
    using Cons.IH [of "earlier @ [k]"] Cons.prems by simp
  have "count_list earlier k \<le> length earlier" by (rule count_le_length)
  with Cons.prems have small: "count_list earlier k < 2 ^ 53" by simp
  from Cons.prems have "k \<noteq> ''__proto__''" by auto
  from nextKey_counts_of [OF this small]
  have "fst (nextKeys (counts_of earlier) (k # ks)) =
        resolved_key earlier k # fst (nextKeys (counts_of (earlier @ [k])) ks)"
    by (simp split: prod.splits)
  also have "\<dots> = map (\<lambda>i. resolved_key (earlier @ take i (k # ks)) ((k # ks) ! i))
        [0..<length (k # ks)]"
    unfolding idx rest by (simp add: comp_def del: upt_Suc)
  finally show ?case .
qed

text \<open>
  In a fresh KeySequence that is never asked for \<^verbatim>\<open>__proto__\<close>, and not more than
  \<open>2\<^sup>5\<^sup>3\<close> times, the request number \<open>i\<close> returns the bare key when the key was not
  requested before, and otherwise the key followed by \<open>_\<close> and the number of earlier
  requests of the same key (the n-th request gets \<open>n - 1\<close>).
\<close>

lemma KeySequence_other_keys:
  assumes "''__proto__'' \<notin> set ks" and "length ks \<le> 2 ^ 53"
  shows "fst (nextKeys KeySequence_new ks) =
     map (\<lambda>i. if count_list (take i ks) (ks ! i) = 0 then ks ! i
               else ks ! i @ ''_'' @ string_of_nat (count_list (take i ks) (ks ! i)))
       [0..<length ks]"
proof -
  have "KeySequence_new = counts_of []"
    by (simp add: KeySequence_new_def counts_of_def fun_eq_iff)
  then show ?thesis
    using nextKeys_counts_of [of ks "[]"] assms by (simp add: resolved_key_def)
qed

text \<open>
  C6 (the code at the failing input). Among the requests \<open>a\<close>, \<^verbatim>\<open>__proto__\<close>, \<open>a\<close>,
  \<^verbatim>\<open>__proto__\<close>, \<open>a\<close> made to a fresh KeySequence, those for \<open>a\<close> return \<open>a\<close>, \<open>a_1\<close> and
  \<open>a_2\<close>, as the claim says, but both requests for \<^verbatim>\<open>__proto__\<close> return the bare key:
  the second one is not told apart from the first.
\<close>

theorem KeySequence_proto_key_repeats:
  "fst (nextKeys KeySequence_new [''a'', ''__proto__'', ''a'', ''__proto__'', ''a'']) =
     [''a'', ''__proto__'', ''a_1'', ''__proto__'', ''a_2'']"
  by (simp add: KeySequence_new_def nextKey_def digit_char_def)

lemma appendChild_plain:
  "\<not> isTextArea this \<Longrightarrow>
   appendChild this child = Inr (this\<lparr>childCount := Suc (childCount this), kids := kids this @ [child]\<rparr>)"
  by (simp add: appendChild_def Let_def)

text \<open>
  C8 (as stated, refuted). A node declared with one child takes a second one: the call
  returns normally, the counter is 2 and both children are linked.
\<close>

theorem appendChild_beyond_declared_count:
  "appendChildren (VNode_init (Count 1) False) [VText ''a'', VText ''b''] =
     Inr \<lparr>finalChildCount = Count 1, childCount = 2, isTextArea = False, valueInternal = None,
          kids = [VText ''a'', VText ''b'']\<rparr>"
  by (simp add: VNode_init_def appendChild_def Let_def)

text \<open>
  C8 (amended). \<^verbatim>\<open>bn_\<close> never reads the declared count: on a node that is not a
  textarea, any number of children is accepted whatever the declared count is; each is
  linked last and counted. (The only failure of \<^verbatim>\<open>bn_\<close> is the \<^verbatim>\<open>TypeError\<close> for a
  non-text child of a textarea.)
\<close>

theorem appendChild_ignores_declared_count:
  "\<not> isTextArea this \<Longrightarrow>
   appendChildren this cs =
     Inr (this\<lparr>childCount := childCount this + length cs, kids := kids this @ cs\<rparr>)"
proof (induction cs arbitrary: this)
  case Nil
  show ?case by simp
next
  case (Cons c cs)
  let ?next = "this\<lparr>childCount := Suc (childCount this), kids := kids this @ [c]\<rparr>"
  have "\<not> isTextArea ?next" using Cons.prems by simp
  from Cons.IH [OF this] appendChild_plain [OF Cons.prems, of c]
  show ?case by simp
qed

theorem appendChild_ignores_declared_count_witness:
  "\<not> isTextArea (VNode_init (Count 0) False) \<and>
   appendChildren (VNode_init (Count 0) False) [VComment ''x'', VText ''y'', VText ''z''] =
     Inr \<lparr>finalChildCount = Count 0, childCount = 3, isTextArea = False, valueInternal = None,
          kids = [VComment ''x'', VText ''y'', VText ''z'']\<rparr>"
  using appendChild_ignores_declared_count
    [of "VNode_init (Count 0) False" "[VComment ''x'', VText ''y'', VText ''z'']"]
  by (simp add: VNode_init_def)

section \<open>morphAttrs\<close>

lemma patch_attr_other:
  "fst e \<noteq> n \<Longrightarrow> [op \<leftarrow> patch_attr el old e. op_attr op = Some (None, n)] = []"
  by (auto simp: patch_attr_def Let_def setAttribute_def removeAttribute_def)

lemma patch_attr_self:
  "n \<noteq> ATTR_XLINK_HREF \<Longrightarrow>
   [op \<leftarrow> patch_attr el old (n, v). op_attr op = Some (None, n)] = patch_attr el old (n, v)"
  by (auto simp: patch_attr_def Let_def setAttribute_def removeAttribute_def)

lemma filter_patch_entries:
  "distinct (map fst es) \<Longrightarrow> (n, v) \<in> set es \<Longrightarrow> n \<noteq> ATTR_XLINK_HREF \<Longrightarrow>
   [op \<leftarrow> concat (map (patch_attr el old) es). op_attr op = Some (None, n)] = patch_attr el old (n, v)"
proof (induction es)
  case Nil
  then show ?case by simp
next
  case (Cons e es)
  show ?case
  proof (cases "e = (n, v)")
    case True
    with Cons.prems have "\<forall>e' \<in> set es. fst e' \<noteq> n" by force
    then have "[op \<leftarrow> concat (map (patch_attr el old) es). op_attr op = Some (None, n)] = []"
      by (induction es) (simp_all add: patch_attr_other)
    with True Cons.prems(3) show ?thesis by (simp add: patch_attr_self)
  next
    case False
    with Cons.prems have mem: "(n, v) \<in> set es" by simp
    then have "n \<in> fst ` set es" by force
    with Cons.prems have ne: "fst e \<noteq> n" by auto
    from Cons.prems have "distinct (map fst es)" by simp
    from Cons.IH [OF this mem Cons.prems(3)] ne show ?thesis by (simp add: patch_attr_other)
  qed
qed

lemma filter_stale:
  "n \<in> attr_names new \<Longrightarrow>
   [op \<leftarrow> concat (map (\<lambda>e. remove_stale el new (fst e)) es). op_attr op = Some (None, n)] = []"
  by (induction es) (auto simp: remove_stale_def attr_in_def)


lemma morphAttrs_general:
  assumes "toFlags AND FLAG_CUSTOM_ELEMENT = 0"
    and "\<not> (toFlags AND FLAG_SIMPLE_ATTRS \<noteq> 0 \<and> fromFlags AND FLAG_SIMPLE_ATTRS \<noteq> 0)"
    and "attrs_ref old \<noteq> attrs_ref new"
  shows "morphAttrs_ops el (VElement tag old k ow fromFlags c ns tv ks)
           (VElement tag' new k' ow' toFlags c' ns' tv' ks') =
         Inr (concat (map (patch_attr el old) (attrs_entries new)) @
              (if k' = KeyNull
               then concat (map (\<lambda>e. remove_stale el new (fst e)) (attrs_entries old))
               else []))"
  unfolding morphAttrs_ops_def Let_def using assms by auto



text \<open>
  C4 (as stated, refuted). When both virtual elements carry \<^verbatim>\<open>FLAG_SIMPLE_ATTRS\<close>, a
  \<^verbatim>\<open>class\<close> whose new value is \<^verbatim>\<open>null\<close> is not removed: \<^verbatim>\<open>null\<close> is assigned to
  \<^verbatim>\<open>className\<close> and no \<^verbatim>\<open>removeAttribute\<close> is issued.
\<close>

theorem morphAttrs_simple_path_no_removal:
  "morphAttrs_ops 7
     (VElement ''DIV'' \<lparr>attrs_ref = 1, attrs_entries = [(''class'', JStr ''a'')]\<rparr>
        KeyNull None FLAG_SIMPLE_ATTRS JUndefined None None [])
     (VElement ''DIV'' \<lparr>attrs_ref = 2, attrs_entries = [(''class'', JNull)]\<rparr>
        KeyNull None FLAG_SIMPLE_ATTRS JUndefined None None []) =
   Inr [SetProperty 7 ''className'' JNull]"
  by (simp add: morphAttrs_ops_def Let_def simple_attr_def attr_lookup_def inherited_def
      inherited_names_def)

text \<open>
  C4 (amended). On the general path of \<^verbatim>\<open>morphAttrs\<close> (the target is not a custom
  element, the two elements are not both flagged simple-attrs, the two maps are different
  objects), for every attribute \<open>n\<close> of the new map other than \<^verbatim>\<open>xlink:href\<close>: a new
  value that is \<^verbatim>\<open>null\<close>, \<^verbatim>\<open>undefined\<close> or \<^verbatim>\<open>false\<close> gives exactly one
  \<^verbatim>\<open>removeAttribute\<close>; otherwise a value that is not \<^verbatim>\<open>===\<close> the old one gives exactly
  one \<^verbatim>\<open>setAttribute\<close>, with the converted value; otherwise no operation on \<open>n\<close> is
  issued.
\<close>

theorem morphAttrs_rules:
  assumes "toFlags AND FLAG_CUSTOM_ELEMENT = 0"
    and "\<not> (toFlags AND FLAG_SIMPLE_ATTRS \<noteq> 0 \<and> fromFlags AND FLAG_SIMPLE_ATTRS \<noteq> 0)"
    and "attrs_ref old \<noteq> attrs_ref new"
    and "distinct (map fst (attrs_entries new))"
    and "(n, v) \<in> set (attrs_entries new)"
    and "n \<noteq> ATTR_XLINK_HREF"
  shows "\<exists>ops. morphAttrs_ops el (VElement tag old k ow fromFlags c ns tv ks)
                 (VElement tag' new k' ow' toFlags c' ns' tv' ks') = Inr ops \<and>
          [op \<leftarrow> ops. op_attr op = Some (None, n)] =
            (if loose_null v \<or> v = JBool False then [RemoveAttribute el n]
             else if \<not> strict_eq (attr_lookup old n) v then [SetAttribute el n (attr_string v)]
             else [])"
proof -
  have mem: "n \<in> attr_names new" using assms(5) by (force simp: attr_names_def)
  have p: "patch_attr el old (n, v) =
            (if loose_null v \<or> v = JBool False then [RemoveAttribute el n]
             else if \<not> strict_eq (attr_lookup old n) v then [SetAttribute el n (attr_string v)]
             else [])"
    using assms(6) by (simp add: patch_attr_def Let_def setAttribute_def removeAttribute_def)
  show ?thesis
    unfolding morphAttrs_general [OF assms(1-3)]
    using filter_patch_entries [OF assms(4-6), of el old] filter_stale [OF mem, of el "attrs_entries old"]
    by (simp add: p)
qed

text \<open>
  C4, instance: the patch from \<^verbatim>\<open>{class:"a", id:"x"}\<close> to \<^verbatim>\<open>{class:"b", id:"x"}\<close> issues
  one operation, \<^verbatim>\<open>setAttribute("class", "b")\<close>, and none for \<^verbatim>\<open>id\<close>.
\<close>

theorem morphAttrs_rules_witness:
  "(0::nat) AND FLAG_CUSTOM_ELEMENT = 0 \<and>
   \<not> ((0::nat) AND FLAG_SIMPLE_ATTRS \<noteq> 0 \<and> (0::nat) AND FLAG_SIMPLE_ATTRS \<noteq> 0) \<and>
   distinct (map fst [(''class'', JStr ''b''), (''id'', JStr ''x'')]) \<and>
   (\<exists>ops. morphAttrs_ops 7
       (VElement ''DIV'' \<lparr>attrs_ref = 1, attrs_entries = [(''class'', JStr ''a''), (''id'', JStr ''x'')]\<rparr>
          KeyNull None 0 JUndefined None None [])
       (VElement ''DIV'' \<lparr>attrs_ref = 2, attrs_entries = [(''class'', JStr ''b''), (''id'', JStr ''x'')]\<rparr>
          KeyNull None 0 JUndefined None None []) = Inr ops \<and>
      [op \<leftarrow> ops. op_attr op = Some (None, ''class'')] = [SetAttribute 7 ''class'' ''b''] \<and>
      ops = [SetAttribute 7 ''class'' ''b''])"
  using morphAttrs_rules [of 0 0
      "\<lparr>attrs_ref = 1, attrs_entries = [(''class'', JStr ''a''), (''id'', JStr ''x'')]\<rparr>"
      "\<lparr>attrs_ref = 2, attrs_entries = [(''class'', JStr ''b''), (''id'', JStr ''x'')]\<rparr>"
      "''class''" "JStr ''b''" 7 "''DIV''" KeyNull None JUndefined None None "[]"
      "''DIV''" KeyNull None JUndefined None None "[]"]
  by (simp add: morphAttrs_ops_def Let_def patch_attr_def remove_stale_def attr_lookup_def
      attr_names_def attr_in_def setAttribute_def ATTR_XLINK_HREF_def)




section \<open>morphEl\<close>

lemma andThen_Inr [simp]: "andThen (Inr x) f = f x"
  by (simp add: andThen_def)

lemma andThen_Inl [simp]: "andThen (Inl e) f = Inl e"
  by (simp add: andThen_def)

text \<open>
  C5. When the new virtual element carries a constant id that is not \<^verbatim>\<open>undefined\<close> (in
  particular a non-null one) and the old virtual element carries the same one,
  \<^verbatim>\<open>morphEl\<close> returns before \<^verbatim>\<open>morphAttrs\<close>, \<^verbatim>\<open>morphChildren\<close> and the special element
  handlers: whatever the two attribute maps and the children are, the state is returned
  as it is, but for the entry of the keyed elements that a re-render in the browser
  writes first.
\<close>

theorem constId_short_circuit:
  assumes "constId_of toEl \<noteq> JUndefined"
    and "strict_eq (constId_of vFromEl) (constId_of toEl)"
  shows "morphEl recur ctx fromEl vFromEl toEl toElKey ownerComponent parentComponent st =
           (if isRerenderInBrowser ctx \<and> key_truthy toElKey
            then (case (ownerComponent, toElKey) of
                    (Some oc, KeyStr k) \<Rightarrow>
                      Inr (upd_component oc
                             (\<lambda>comp. comp\<lparr>keyedElements := (keyedElements comp)(k \<mapsto> KNode fromEl)\<rparr>) st)
                  | _ \<Rightarrow> Inl TypeError)
            else Inr st)"
  using assms by (simp add: morphEl_def split: option.splits jskey.splits)

text \<open>
  C5, instance: same constant id \<^verbatim>\<open>"c1"\<close>, attribute maps and children that differ; the
  state comes back unchanged.
\<close>

theorem constId_short_circuit_witness:
  "constId_of (VElement ''DIV'' \<lparr>attrs_ref = 2, attrs_entries = [(''class'', JStr ''b'')]\<rparr>
                 KeyNull None 0 (JStr ''c1'') None None [VText ''new'']) \<noteq> JUndefined \<and>
   strict_eq (constId_of (VElement ''DIV'' \<lparr>attrs_ref = 1, attrs_entries = [(''class'', JStr ''a'')]\<rparr>
                 KeyNull None 0 (JStr ''c1'') None None [VText ''old'']))
             (constId_of (VElement ''DIV'' \<lparr>attrs_ref = 2, attrs_entries = [(''class'', JStr ''b'')]\<rparr>
                 KeyNull None 0 (JStr ''c1'') None None [VText ''new''])) \<and>
   morphEl (morphChildren 5 (plain_context {})) (plain_context {}) 0
     (VElement ''DIV'' \<lparr>attrs_ref = 1, attrs_entries = [(''class'', JStr ''a'')]\<rparr>
        KeyNull None 0 (JStr ''c1'') None None [VText ''old''])
     (VElement ''DIV'' \<lparr>attrs_ref = 2, attrs_entries = [(''class'', JStr ''b'')]\<rparr>
        KeyNull None 0 (JStr ''c1'') None None [VText ''new''])
     KeyNull None None initial_state = Inr initial_state"
  using constId_short_circuit [of
      "VElement ''DIV'' \<lparr>attrs_ref = 2, attrs_entries = [(''class'', JStr ''b'')]\<rparr>
         KeyNull None 0 (JStr ''c1'') None None [VText ''new'']"
      "VElement ''DIV'' \<lparr>attrs_ref = 1, attrs_entries = [(''class'', JStr ''a'')]\<rparr>
         KeyNull None 0 (JStr ''c1'') None None [VText ''old'']"
      "morphChildren 5 (plain_context {})" "plain_context {}" 0 KeyNull None None initial_state]
  by (simp add: plain_context_def)

section \<open>Destroying and detaching\<close>

lemma same_dom_refl [simp]: "same_dom st st"
  by (simp add: same_dom_def)

lemma same_dom_trans: "same_dom a b \<Longrightarrow> same_dom b c \<Longrightarrow> same_dom a c"
  by (simp add: same_dom_def)

lemma same_dom_upd_component [simp]: "same_dom st (upd_component c f st)"
  by (simp add: same_dom_def upd_component_def)

lemma destroyShallow_same_dom: "destroyShallow c st = Inr st' \<Longrightarrow> same_dom st st'"
  by (auto simp: destroyShallow_def same_dom_def upd_component_def emitLifecycleEvent_def
      split: if_splits option.splits)

lemma destroyComponentForNode_same_dom:
  "destroyComponentForNode node st = Inr st' \<Longrightarrow> same_dom st st'"
  by (auto simp: destroyComponentForNode_def andThen_def same_dom_def
      split: option.splits sum.splits dest!: destroyShallow_same_dom)

lemma forget_key_same_dom [simp]: "same_dom st (forget_key c node st)"
  by (auto simp: forget_key_def same_dom_def upd_component_def split: option.splits jskey.splits)

lemma andThen_eq_Inr: "andThen r f = Inr y \<longleftrightarrow> (\<exists>x. r = Inr x \<and> f x = Inr y)"
  by (cases r) simp_all

lemma destroy_same_dom:
  "destroyNodeRecursive k c node st = Inr st' \<Longrightarrow> same_dom st st'"
  "destroy_siblings k c cs st = Inr st' \<Longrightarrow> same_dom st st'"
proof (induction k c node st and k c cs st arbitrary: st' and st'
    rule: destroyNodeRecursive_destroy_siblings.induct)
  case (1 component node st)
  then show ?case by simp
next
  case (2 k component node st)
  from "2.prems" obtain st1 where s1: "destroyComponentForNode node st = Inr st1"
    and rest: "(if node_type st1 node = 1 \<or> node_type st1 node = 12
             then destroy_siblings k component (children_of st1 node) (forget_key component node st1)
             else Inr st1) = Inr st'"
    by (auto simp: andThen_eq_Inr)
  from s1 have a: "same_dom st st1" by (rule destroyComponentForNode_same_dom)
  show ?case
  proof (cases "node_type st1 node = 1 \<or> node_type st1 node = 12")
    case True
    with rest have "destroy_siblings k component (children_of st1 node) (forget_key component node st1) = Inr st'"
      by simp
    from "2.IH" [OF True this] have "same_dom (forget_key component node st1) st'" .
    with a show ?thesis using forget_key_same_dom [of st1 component node]
      by (blast intro: same_dom_trans)
  next
    case False
    with rest a show ?thesis by simp
  qed
next
  case (3 component cs st)
  then show ?case by simp
next
  case (4 k component st)
  then show ?case by simp
next
  case (5 k component c cs st)
  note run = "5.prems"
  show ?case
  proof (cases "node_type st c = 12")
    case True
    with run obtain st1 st2 st3 where
      s1: "destroyComponentForNode c st = Inr st1" and
      s2: "destroy_siblings k component (children_of st1 c) st1 = Inr st2" and
      s3: "destroyComponentForNode c st2 = Inr st3" and
      s4: "destroy_siblings k component cs st3 = Inr st'"
      by (auto simp: andThen_eq_Inr)
    from "5.IH"(1) [OF True s2] have "same_dom st1 st2" .
    moreover from "5.IH"(2) [OF True s4]
    have "same_dom st3 st'" .
    ultimately show ?thesis
      using destroyComponentForNode_same_dom [OF s1] destroyComponentForNode_same_dom [OF s3]
      by (blast intro: same_dom_trans)
  next
    case False
    with run obtain st1 where
      s1: "destroyNodeRecursive k component c st = Inr st1" and
      s2: "destroy_siblings k component cs st1 = Inr st'"
      by (auto simp: andThen_eq_Inr)
    from "5.IH"(3) [OF False s1] have "same_dom st st1" .
    moreover from "5.IH"(4) [OF False s2] have "same_dom st1 st'" .
    ultimately show ?thesis by (blast intro: same_dom_trans)
  qed
qed


lemma destroy_frame_refl [simp]: "destroy_frame st st"
  by (simp add: destroy_frame_def)

lemma destroy_frame_trans: "destroy_frame a b \<Longrightarrow> destroy_frame b c \<Longrightarrow> destroy_frame a c"
  by (auto simp: destroy_frame_def)

lemma destroyShallow_frame: "destroyShallow c st = Inr st' \<Longrightarrow> destroy_frame st st'"
  by (auto simp: destroyShallow_def destroy_frame_def upd_component_def emitLifecycleEvent_def
      split: if_splits option.splits)

lemma destroyComponentForNode_frame:
  "destroyComponentForNode node st = Inr st' \<Longrightarrow> destroy_frame st st'"
  by (auto simp: destroyComponentForNode_def andThen_eq_Inr destroy_frame_def
      split: option.splits dest!: destroyShallow_frame)

lemma forget_key_frame [simp]: "destroy_frame st (forget_key c node st)"
  by (auto simp: forget_key_def destroy_frame_def upd_component_def split: option.splits jskey.splits)

lemma destroy_frame:
  "destroyNodeRecursive k c node st = Inr st' \<Longrightarrow> destroy_frame st st'"
  "destroy_siblings k c cs st = Inr st' \<Longrightarrow> destroy_frame st st'"
proof (induction k c node st and k c cs st arbitrary: st' and st'
    rule: destroyNodeRecursive_destroy_siblings.induct)
  case (1 component node st)
  then show ?case by simp
next
  case (2 k component node st)
  from "2.prems" obtain st1 where s1: "destroyComponentForNode node st = Inr st1"
    and rest: "(if node_type st1 node = 1 \<or> node_type st1 node = 12
             then destroy_siblings k component (children_of st1 node) (forget_key component node st1)
             else Inr st1) = Inr st'"
    by (auto simp: andThen_eq_Inr)
  from s1 have a: "destroy_frame st st1" by (rule destroyComponentForNode_frame)
  show ?case
  proof (cases "node_type st1 node = 1 \<or> node_type st1 node = 12")
    case True
    with rest have "destroy_siblings k component (children_of st1 node) (forget_key component node st1) = Inr st'"
      by simp
    from "2.IH" [OF True this] have "destroy_frame (forget_key component node st1) st'" .
    with a show ?thesis using forget_key_frame [of st1 component node]
      by (blast intro: destroy_frame_trans)
  next
    case False
    with rest a show ?thesis by simp
  qed
next
  case (3 component cs st)
  then show ?case by simp
next
  case (4 k component st)
  then show ?case by simp
next
  case (5 k component c cs st)
  note run = "5.prems"
  show ?case
  proof (cases "node_type st c = 12")
    case True
    with run obtain st1 st2 st3 where
      s1: "destroyComponentForNode c st = Inr st1" and
      s2: "destroy_siblings k component (children_of st1 c) st1 = Inr st2" and
      s3: "destroyComponentForNode c st2 = Inr st3" and
      s4: "destroy_siblings k component cs st3 = Inr st'"
      by (auto simp: andThen_eq_Inr)
    from "5.IH"(1) [OF True s2] have "destroy_frame st1 st2" .
    moreover from "5.IH"(2) [OF True s4]
    have "destroy_frame st3 st'" .
    ultimately show ?thesis
      using destroyComponentForNode_frame [OF s1] destroyComponentForNode_frame [OF s3]
      by (blast intro: destroy_frame_trans)
  next
    case False
    with run obtain st1 where
      s1: "destroyNodeRecursive k component c st = Inr st1" and
      s2: "destroy_siblings k component cs st1 = Inr st'"
      by (auto simp: andThen_eq_Inr)
    from "5.IH"(3) [OF False s1] have "destroy_frame st st1" .
    moreover from "5.IH"(4) [OF False s2] have "destroy_frame st1 st'" .
    ultimately show ?thesis by (blast intro: destroy_frame_trans)
  qed
qed

lemma unlink_frame [simp]: "destroy_frame st (unlink node st)"
  by (simp add: unlink_def destroy_frame_def upd_node_def split: option.splits)

lemma log_op_frame [simp]: "destroy_frame st (log_op op st)"
  by (simp add: log_op_def destroy_frame_def)

lemma upd_node_frame [simp]: "destroy_frame st (upd_node n f st)"
  by (simp add: upd_node_def destroy_frame_def)

lemma take_apart_frame:
  "take_apart k f st = Inr st' \<Longrightarrow> destroy_frame st st'"
  "take_apart_children k cs st = Inr st' \<Longrightarrow> destroy_frame st st'"
proof (induction k f st and k cs st arbitrary: st' and st' rule: take_apart_take_apart_children.induct)
  case (1 f st)
  then show ?case by simp
next
  case (2 k f st)
  from "2.prems" obtain st1 st2 st3 where
    s1: "destroyComponentForNode f st = Inr st1" and
    s2: "take_apart_children k (children_of st1 f) st1 = Inr st2" and
    s3: "destroyComponentForNode f st2 = Inr st3" and
    s4: "st' = log_op (RemoveChild f) (upd_node f (\<lambda>r. r\<lparr>childNodes := [], intact := False\<rparr>) (unlink f st3))"
    by (auto simp: andThen_eq_Inr)
  have "destroy_frame st3 st'" unfolding s4
    by (blast intro: destroy_frame_trans unlink_frame upd_node_frame log_op_frame)
  with "2.IH" [OF s2] destroyComponentForNode_frame [OF s1] destroyComponentForNode_frame [OF s3]
  show ?case by (blast intro: destroy_frame_trans)
next
  case (3 cs st)
  then show ?case by simp
next
  case (4 k st)
  then show ?case by simp
next
  case (5 k c cs st)
  from "5.prems" obtain st2 where
    s1: "(if node_type st c = 12 then take_apart k c st
          else andThen (destroyNodeRecursive k None c st)
                 (\<lambda>st1. Inr (log_op (RemoveChild c) (unlink c st1)))) = Inr st2" and
    s2: "take_apart_children k cs st2 = Inr st'"
    by (auto simp: andThen_eq_Inr)
  have "destroy_frame st st2"
  proof (cases "node_type st c = 12")
    case True
    with s1 "5.IH"(1) show ?thesis by simp
  next
    case False
    with s1 obtain st1 where d: "destroyNodeRecursive k None c st = Inr st1"
      and e: "st2 = log_op (RemoveChild c) (unlink c st1)"
      by (auto simp: andThen_eq_Inr)
    have "destroy_frame st1 st2" unfolding e
      by (blast intro: destroy_frame_trans unlink_frame log_op_frame)
    with destroy_frame(1) [OF d] show ?thesis by (blast intro: destroy_frame_trans)
  qed
  with "5.IH"(2) [OF s2] show ?case by (blast intro: destroy_frame_trans)
qed


lemma same_dom_parent_of: "same_dom st st' \<Longrightarrow> parent_of st' n = parent_of st n"
  by (simp add: same_dom_def parent_of_def)

lemma same_dom_node_type: "same_dom st st' \<Longrightarrow> node_type st' n = node_type st n"
  by (simp add: same_dom_def node_type_def)

lemma same_dom_is_intact: "same_dom st st' \<Longrightarrow> is_intact st' n = is_intact st n"
  by (simp add: same_dom_def is_intact_def)

lemma parent_of_unlink [simp]: "parent_of (unlink node st) node = None"
  by (auto simp: unlink_def parent_of_def upd_node_def split: option.splits)

lemma children_of_unlink:
  "parent_of st node = Some p \<Longrightarrow> node \<notin> set (children_of (unlink node st) p)"
  by (cases "nodes st p")
    (auto simp: unlink_def parent_of_def children_of_def upd_node_def split: option.splits)

lemma parent_of_log_op [simp]: "parent_of (log_op op st) n = parent_of st n"
  by (simp add: log_op_def parent_of_def)

lemma children_of_log_op [simp]: "children_of (log_op op st) n = children_of st n"
  by (simp add: log_op_def children_of_def)

lemma removeChild_result:
  assumes "removeChild node st = Inr st'"
  shows "st' = log_op (RemoveChild node) (unlink node st)"
  using assms by (simp add: removeChild_def split: if_splits)

lemma detachedByDOMNode_unlink [simp]: "detachedByDOMNode (unlink node st) = detachedByDOMNode st"
  by (simp add: unlink_def upd_node_def split: option.splits)

lemma dom_log_unlink [simp]: "dom_log (unlink node st) = dom_log st"
  by (simp add: unlink_def upd_node_def split: option.splits)

lemma detachNode_queues:
  "node_type st node = 1 \<or> node_type st node = 12 \<Longrightarrow>
   detachNode k node ownerComponent st =
     Inr (st\<lparr>detachedNodes := detachedNodes st @ [node],
              detachedByDOMNode := (detachedByDOMNode st)
                (node \<mapsto> (case ownerComponent of None \<Rightarrow> MarkTrue | Some c \<Rightarrow> MarkOwner c))\<rparr>)"
  by (simp add: detachNode_def)

lemma detachNode_removes:
  assumes "node_type st node \<noteq> 1" "node_type st node \<noteq> 12"
    and "componentByDOMNode st node = None"
  shows "detachNode (Suc k) node ownerComponent st = Inr (log_op (RemoveChild node) (unlink node st))"
  using assms by (simp add: detachNode_def destroyComponentForNode_def removeChild_def)

lemma flush_unmarked:
  "detachedByDOMNode st node = None \<Longrightarrow> flush_detached k node st = Inr st"
  by (simp add: flush_detached_def)

lemma flush_marked_node:
  assumes "detachedByDOMNode st node = Some mark" and "componentByDOMNode st node = None"
    and "parent_of st node = Some p" and "flush_detached k node st = Inr st'"
  shows "parent_of st' node = None \<and> node \<notin> set (children_of st' p) \<and>
         detachedByDOMNode st' node = None \<and> dom_log st' = dom_log st @ [RemoveChild node]"
proof -
  let ?st1 = "st\<lparr>detachedByDOMNode := (detachedByDOMNode st)(node := None)\<rparr>"
  have p1: "parent_of ?st1 node = Some p" using assms(3) by (simp add: parent_of_def)
  from assms p1 obtain st2 where
    d: "destroyNodeRecursive k (case mark of MarkTrue \<Rightarrow> None | MarkOwner c \<Rightarrow> Some c) node ?st1 = Inr st2"
    and r: "removeChild node st2 = Inr st'"
    by (auto simp: flush_detached_def Let_def andThen_eq_Inr)
  from destroy_same_dom(1) [OF d] have sd: "same_dom ?st1 st2" .
  from removeChild_result [OF r] have e: "st' = log_op (RemoveChild node) (unlink node st2)" .
  have "parent_of st2 node = Some p" using sd p1 by (simp add: same_dom_parent_of)
  then have "node \<notin> set (children_of st' p)" unfolding e by (simp add: children_of_unlink)
  moreover have "parent_of st' node = None" unfolding e by simp
  moreover have "detachedByDOMNode st' node = None" unfolding e using sd
    by (simp add: same_dom_def log_op_def)
  moreover have "dom_log st' = dom_log st @ [RemoveChild node]" unfolding e using sd
    by (simp add: same_dom_def log_op_def)
  ultimately show ?thesis by simp
qed

lemma parent_of_upd_node:
  "(\<And>r. parentNode (g r) = parentNode r) \<Longrightarrow> parent_of (upd_node n g s) m = parent_of s m"
  by (cases "nodes s n") (auto simp: parent_of_def upd_node_def)

lemma take_apart_parent:
  assumes "take_apart (Suc k) f st = Inr st'"
  shows "parent_of st' f = None"
proof -
  from assms obtain st3 where
    "st' = log_op (RemoveChild f) (upd_node f (\<lambda>r. r\<lparr>childNodes := [], intact := False\<rparr>) (unlink f st3))"
    by (auto simp: andThen_eq_Inr)
  then show ?thesis by (simp add: parent_of_upd_node)
qed

lemma take_apart_zero [simp]: "take_apart 0 f st = Inl OutOfFuel"
  by simp

lemma flush_marked_component:
  assumes "detachedByDOMNode st node = Some mark" and "componentByDOMNode st node = Some c"
    and "rootNode (components st c) = Some node" and "\<not> destroyed (components st c)"
    and "flush_detached k node st = Inr st'"
  shows "parent_of st' node = None \<and> detachedByDOMNode st' node = None \<and>
         destroyed (components st' c) \<and> (\<exists>es. events st' = events st @ (c, ''destroy'') # es)"
proof -
  let ?st1 = "st\<lparr>detachedByDOMNode := (detachedByDOMNode st)(node := None)\<rparr>"
  let ?st1c = "?st1\<lparr>destroy_calls := destroy_calls ?st1 @ [c]\<rparr>"
  from assms have run: "destroyComponent k c ?st1 = Inr st'"
    by (simp add: flush_detached_def Let_def)
  then obtain st2 st3 where
    s: "destroyShallow c ?st1c = Inr st2" and
    t: "take_apart k node st2 = Inr st3" and
    e: "st' = upd_component c (\<lambda>comp. comp\<lparr>rootNode := None, keyedElements := Map.empty\<rparr>)
               (st3\<lparr>componentLookup := componentLookup st3 - {c}\<rparr>)"
    using assms(3,4) by (auto simp: destroyComponent_def Let_def andThen_eq_Inr split: if_splits)
  from t obtain k' where k: "k = Suc k'" by (cases k) auto
  from s assms(3,4) have st2: "destroyed (components st2 c)" "events st2 = events st @ [(c, ''destroy'')]"
    "detachedByDOMNode st2 = detachedByDOMNode ?st1"
    by (auto simp: destroyShallow_def upd_component_def emitLifecycleEvent_def)
  from take_apart_frame(1) [OF t] have f: "destroy_frame st2 st3" .
  from take_apart_parent [OF t [unfolded k]] have "parent_of st3 node = None" .
  then have "parent_of st' node = None" unfolding e
    by (simp add: parent_of_def upd_component_def)
  moreover have "detachedByDOMNode st' node = None" unfolding e using f st2(3)
    by (simp add: destroy_frame_def upd_component_def)
  moreover have "destroyed (components st' c)" unfolding e using f st2(1)
    by (simp add: destroy_frame_def upd_component_def)
  moreover have "\<exists>es. events st' = events st @ (c, ''destroy'') # es" unfolding e using f st2(2)
    by (auto simp: destroy_frame_def upd_component_def)
  ultimately show ?thesis by simp
qed


lemma detachedByDOMNode_upd_node [simp]: "detachedByDOMNode (upd_node n f st) = detachedByDOMNode st"
  by (simp add: upd_node_def)

lemma detachedByDOMNode_log_op [simp]: "detachedByDOMNode (log_op op st) = detachedByDOMNode st"
  by (simp add: log_op_def)

lemma detachedByDOMNode_link [simp]: "detachedByDOMNode (link n c b st) = detachedByDOMNode st"
  by (simp add: link_def)

lemma detachedByDOMNode_apply_op [simp]: "detachedByDOMNode (apply_op op st) = detachedByDOMNode st"
  by (cases op) simp_all

lemma detachedByDOMNode_issue [simp]: "detachedByDOMNode (issue ops st) = detachedByDOMNode st"
  unfolding issue_def by (induction ops arbitrary: st rule: rev_induct) simp_all

lemma insertAt_marks:
  "insertAt node container refChild parentEl st = Inr st' \<Longrightarrow>
   detachedByDOMNode st' = detachedByDOMNode st"
  by (auto simp: insertAt_def split: if_splits)

lemma insertBefore_marks:
  "insertBefore node referenceNode parentEl st = Inr st' \<Longrightarrow>
   detachedByDOMNode st' = detachedByDOMNode st"
  by (auto simp: insertBefore_def split: option.splits if_splits dest: insertAt_marks)

lemma insertAfter_marks:
  "insertAfter node referenceNode parentEl st = Inr st' \<Longrightarrow>
   detachedByDOMNode st' = detachedByDOMNode st"
  by (auto simp: insertAfter_def split: option.splits if_splits
      dest: insertAt_marks insertBefore_marks)

lemma detachNode_other_mark:
  assumes "detachNode k cur ownerComponent st = Inr st'" and "m \<noteq> cur"
  shows "detachedByDOMNode st' m = detachedByDOMNode st m"
proof (cases "node_type st cur = 1 \<or> node_type st cur = 12")
  case True
  with assms show ?thesis by (auto simp: detachNode_def)
next
  case False
  with assms obtain st1 where d: "destroyNodeRecursive k None cur st = Inr st1"
    and r: "removeChild cur st1 = Inr st'"
    by (auto simp: detachNode_def andThen_eq_Inr)
  from destroy_same_dom(1) [OF d] removeChild_result [OF r] show ?thesis
    by (simp add: same_dom_def)
qed

lemma detach_cursor_marks:
  assumes "(case cur of None \<Rightarrow> Inr st | Some x \<Rightarrow> detachNode k x ownerComponent st) = Inr st'"
    and "cur \<noteq> Some m"
  shows "detachedByDOMNode st' m = detachedByDOMNode st m"
proof (cases cur)
  case None
  with assms show ?thesis by simp
next
  case (Some x)
  with assms have "detachNode k x ownerComponent st = Inr st'" "m \<noteq> x" by auto
  then show ?thesis by (rule detachNode_other_mark)
qed

lemma relocate_marks:
  assumes "relocate k fromNode m ownerComponent toNextSibling vars st = Inr (vars', st')"
    and "curFromNodeChild vars \<noteq> Some m"
  shows "detachedByDOMNode st' m = detachedByDOMNode st m"
proof (cases "fromNextSibling vars = Some m")
  case True
  show ?thesis
  proof (cases "case toNextSibling of None \<Rightarrow> False | Some t \<Rightarrow> key_of t = curFromNodeKey vars")
    case swap: True
    with True assms(1) have "insertBefore m (curFromNodeChild vars) fromNode st = Inr st'"
      by (auto simp: relocate_def andThen_eq_Inr)
    then show ?thesis by (simp add: insertBefore_marks)
  next
    case removal: False
    with True assms(1) have
      "(case curFromNodeChild vars of None \<Rightarrow> Inr st | Some cur \<Rightarrow> detachNode k cur ownerComponent st) = Inr st'"
      by (auto simp: relocate_def andThen_eq_Inr)
    from detach_cursor_marks [OF this assms(2)] show ?thesis .
  qed
next
  case False
  with assms(1) obtain st1 where
    a: "insertAfter m (curFromNodeChild vars) fromNode st = Inr st1" and
    b: "(case curFromNodeChild vars of None \<Rightarrow> Inr st1 | Some cur \<Rightarrow> detachNode k cur ownerComponent st1) = Inr st'"
    by (auto simp: relocate_def andThen_eq_Inr)
  from detach_cursor_marks [OF b assms(2)] insertAfter_marks [OF a] show ?thesis by simp
qed

lemma morphAttrs_marks:
  "morphAttrs fromEl vFromEl toEl st = Inr st' \<Longrightarrow> detachedByDOMNode st' = detachedByDOMNode st"
  by (auto simp: morphAttrs_def split: sum.splits)

lemma syncBooleanAttrProp_marks [simp]:
  "detachedByDOMNode (syncBooleanAttrProp fromEl toEl name st) = detachedByDOMNode st"
  by (simp add: syncBooleanAttrProp_def)

lemma sync_value_marks [simp]:
  "detachedByDOMNode (sync_value fromEl toEl st) = detachedByDOMNode st"
  by (simp add: sync_value_def)

lemma specialElHandler_marks [simp]:
  "detachedByDOMNode (specialElHandler name fromEl toEl st) = detachedByDOMNode st"
  unfolding specialElHandler_def Let_def
  by (simp split: option.splits)

lemma morphKeyedNode_match_ahead:
  assumes "key_of t = KeyStr key0"
    and "resolve_key oc pc key0 st = Inr (key, rc, st0)"
    and "vars1 = (case curFromNodeChild vars of
                    None \<Rightarrow> vars\<lparr>curFromNodeKey := KeyUndefined\<rparr>
                  | Some cur \<Rightarrow> vars\<lparr>curFromNodeKey := key_at st0 cur,
                                     fromNextSibling := nextSibling st0 cur\<rparr>)"
    and "curFromNodeKey vars1 \<noteq> KeyStr key"
    and "keyedElements (components st0 rc) key = Some (KNode m)"
    and "st1 = st0\<lparr>detachedByDOMNode := (detachedByDOMNode st0)(m := None)\<rparr>"
  shows "morphKeyedNode recur k ctx fromNode pc oc tn t vars st =
     (if flags_of t AND FLAG_PRESERVE \<noteq> 0 \<or> preserve_of t
      then andThen (insertBefore m (curFromNodeChild vars) fromNode st1)
             (\<lambda>st2. Inr (advance (vars1\<lparr>fromNextSibling := curFromNodeChild vars\<rparr>), st2))
      else (case vElementByDOMNode st1 m of
              None \<Rightarrow> Inl TypeError
            | Some vFrom \<Rightarrow>
                (if tagName_of vFrom = tagName_of t
                 then andThen (relocate k fromNode m oc tn vars1 st1)
                        (\<lambda>(vars2, st2).
                           andThen (morphEl recur ctx m vFrom t (KeyStr key) oc pc st2)
                             (\<lambda>st3. Inr (advance vars2, st3)))
                 else andThen (insertVirtualNodeBefore recur ctx t (KeyStr key) (curFromNodeChild vars)
                                 fromNode oc pc st1)
                        (\<lambda>st2. andThen (detachNode k m oc st2)
                                  (\<lambda>st3. Inr (advance vars1, st3))))))"
  using assms(1,2,4,5) unfolding assms(3,6) morphKeyedNode_def
  by (simp add: Let_def)

section \<open>The queue of detached nodes\<close>

lemma not_isl_Inr: "\<not> isl r \<Longrightarrow> \<exists>x. r = Inr x"
  by (cases r) simp_all

end
